theory Spec2Isabelle
  imports Complex_Main "HOL-Library.Product_Lexorder"
begin

section \<open>Strings\<close>

text \<open>
  A Python \<open>str\<close> is modelled as a \<open>string\<close>: the list of its code points, each an
  8-bit \<open>char\<close>, read as the Latin-1 range U+0000..U+00FF.  The character classes
  below are Python's for that range (\<open>str.isspace\<close>, \<open>str.isdigit\<close>, the classes
  \<open>\s\<close>, \<open>\d\<close> and \<open>\w\<close> of the module \<open>re\<close> on \<open>str\<close> patterns, \<open>str.lower\<close>).
\<close>

definition ord :: "char \<Rightarrow> nat" where
  "ord c = of_char c"

definition isspace :: "char \<Rightarrow> bool" where
  "isspace c = (let n = ord c in
     (9 \<le> n \<and> n \<le> 13) \<or> (28 \<le> n \<and> n \<le> 32) \<or> n = 133 \<or> n = 160)"

definition isdecimal :: "char \<Rightarrow> bool" where
  "isdecimal c = (let n = ord c in 48 \<le> n \<and> n \<le> 57)"

definition isdigit_char :: "char \<Rightarrow> bool" where
  "isdigit_char c = (let n = ord c in (48 \<le> n \<and> n \<le> 57) \<or> n = 178 \<or> n = 179 \<or> n = 185)"

definition isalpha :: "char \<Rightarrow> bool" where
  "isalpha c = (let n = ord c in
     (65 \<le> n \<and> n \<le> 90) \<or> (97 \<le> n \<and> n \<le> 122) \<or> n = 170 \<or> n = 181 \<or> n = 186
     \<or> (192 \<le> n \<and> n \<le> 214) \<or> (216 \<le> n \<and> n \<le> 246) \<or> (248 \<le> n \<and> n \<le> 255))"

definition isnumeric :: "char \<Rightarrow> bool" where
  "isnumeric c = (let n = ord c in
     (48 \<le> n \<and> n \<le> 57) \<or> n = 178 \<or> n = 179 \<or> n = 185 \<or> (188 \<le> n \<and> n \<le> 190))"

text \<open>The class \<open>\w\<close>: alphanumeric or underscore.\<close>

definition isword :: "char \<Rightarrow> bool" where
  "isword c = (isalpha c \<or> isnumeric c \<or> c = CHR ''_'')"

definition lower_char :: "char \<Rightarrow> char" where
  "lower_char c = (let n = ord c in
     if (65 \<le> n \<and> n \<le> 90) \<or> (192 \<le> n \<and> n \<le> 222 \<and> n \<noteq> 215)
     then char_of (n + 32) else c)"

definition lower :: "string \<Rightarrow> string" where
  "lower s = map lower_char s"

text \<open>
  The same classes on the eight bits of a character (\<open>b0\<close> is the lowest); these
  equations are the ones used to evaluate a class on a given character.
\<close>

lemma isspace_Char [code]:
  "isspace (Char b0 b1 b2 b3 b4 b5 b6 b7) \<longleftrightarrow> (if b7 then (\<not> b6
     \<and> (if b5 then (\<not> b4 \<and> (\<not> b3 \<and> (\<not> b2 \<and> (\<not> b1
     \<and> \<not> b0)))) else (\<not> b4 \<and> (\<not> b3 \<and> (b2 \<and> (\<not> b1
     \<and> b0)))))) else (\<not> b6 \<and> (if b5 then (\<not> b4 \<and> (\<not> b3 \<and>
     (\<not> b2 \<and> (\<not> b1 \<and> \<not> b0)))) else (if b4 then (b3 \<and> b2) else
     (b3 \<and> (if b2 then \<not> b1 else (b1 \<or> b0)))))))"
  by (cases b0; cases b1; cases b2; cases b3; cases b4; cases b5; cases b6; cases b7;
      simp add: isspace_def ord_def)

lemma isdecimal_Char [code]:
  "isdecimal (Char b0 b1 b2 b3 b4 b5 b6 b7) \<longleftrightarrow> (\<not> b7 \<and> (\<not>
     b6 \<and> (b5 \<and> (b4 \<and> (\<not> b3 \<or> (\<not> b2 \<and> \<not> b1))))))"
  by (cases b0; cases b1; cases b2; cases b3; cases b4; cases b5; cases b6; cases b7;
      simp add: isdecimal_def ord_def)

lemma isdigit_char_Char [code]:
  "isdigit_char (Char b0 b1 b2 b3 b4 b5 b6 b7) \<longleftrightarrow> (if b7 then (\<not> b6
     \<and> (b5 \<and> (b4 \<and> (if b3 then (\<not> b2 \<and> (\<not> b1 \<and> b0)) else
     (\<not> b2 \<and> b1))))) else (\<not> b6 \<and> (b5 \<and> (b4 \<and> (\<not> b3 \<or>
     (\<not> b2 \<and> \<not> b1))))))"
  by (cases b0; cases b1; cases b2; cases b3; cases b4; cases b5; cases b6; cases b7;
      simp add: isdigit_char_def ord_def)

lemma isword_Char [code]:
  "isword (Char b0 b1 b2 b3 b4 b5 b6 b7) \<longleftrightarrow> (if b7 then (if b6 then (if
     b5 then (\<not> b4 \<or> (b3 \<or> (\<not> b2 \<or> (\<not> b1 \<or> \<not> b0)))) else
     (\<not> b4 \<or> (b3 \<or> (\<not> b2 \<or> (\<not> b1 \<or> \<not> b0))))) else (b5
     \<and> (if b4 then (if b3 then (if b2 then (\<not> b1 \<or> \<not> b0) else (if b1 then
     \<not> b0 else b0)) else (if b2 then (\<not> b1 \<and> b0) else b1)) else (b3 \<and>
     (\<not> b2 \<and> (b1 \<and> \<not> b0)))))) else (if b6 then (if b5 then (if b4 then
     (\<not> b3 \<or> (\<not> b2 \<and> (\<not> b1 \<or> \<not> b0))) else (b3 \<or> (b2
     \<or> (b1 \<or> b0)))) else (if b4 then (\<not> b3 \<or> (if b2 then (b1 \<and> b0)
     else (\<not> b1 \<or> \<not> b0))) else (b3 \<or> (b2 \<or> (b1 \<or> b0))))) else (b5
     \<and> (b4 \<and> (\<not> b3 \<or> (\<not> b2 \<and> \<not> b1))))))"
  by (cases b0; cases b1; cases b2; cases b3; cases b4; cases b5; cases b6; cases b7;
      simp add: isword_def isalpha_def isnumeric_def ord_def)

lemma lower_char_Char [code]:
  "lower_char (Char b0 b1 b2 b3 b4 b5 b6 b7) = (if (if b7 then (b6 \<and> (\<not> b5 \<and>
     (\<not> b4 \<or> (if b3 then (\<not> b2 \<or> (\<not> b1 \<or> \<not> b0)) else (\<not>
     b2 \<or> (\<not> b1 \<or> \<not> b0)))))) else (b6 \<and> (\<not> b5 \<and> (if b4 then
     (\<not> b3 \<or> (\<not> b2 \<and> (\<not> b1 \<or> \<not> b0))) else (b3 \<or> (b2
     \<or> (b1 \<or> b0))))))) then Char b0 b1 b2 b3 b4 True b6 b7 else Char b0 b1 b2 b3 b4
     b5 b6 b7)"
  by (cases b0; cases b1; cases b2; cases b3; cases b4; cases b5; cases b6; cases b7;
      simp add: lower_char_def ord_def char_of_eq_iff)

text \<open>\<open>s.strip()\<close>: whitespace removed at both ends.\<close>

definition strip :: "string \<Rightarrow> string" where
  "strip s = rev (dropWhile isspace (rev (dropWhile isspace s)))"

text \<open>\<open>s.split()\<close>: the maximal runs of non-whitespace characters.\<close>

fun split_acc :: "string \<Rightarrow> string \<Rightarrow> string list" where
  "split_acc cur [] = (if cur = [] then [] else [cur])"
| "split_acc cur (c # cs) =
     (if isspace c then (if cur = [] then [] else [cur]) @ split_acc [] cs
      else split_acc (cur @ [c]) cs)"

definition split :: "string \<Rightarrow> string list" where
  "split s = split_acc [] s"

text \<open>\<open>old in s\<close> and \<open>s.startswith(old)\<close>.\<close>

definition startswith :: "string \<Rightarrow> string \<Rightarrow> bool" where
  "startswith s old = (take (length old) s = old)"

fun contains :: "string \<Rightarrow> string \<Rightarrow> bool" where
  "contains [] old = (old = [])"
| "contains (c # cs) old = (startswith (c # cs) old \<or> contains cs old)"

text \<open>
  \<open>s.replace(old, new)\<close>: every occurrence of \<open>old\<close>, leftmost first and not
  overlapping; an empty \<open>old\<close> matches before every character and at the end.
\<close>

function replace_all :: "string \<Rightarrow> string \<Rightarrow> string \<Rightarrow> string" where
  "replace_all old new s =
     (if old = [] then new @ concat (map (\<lambda>c. c # new) s)
      else (case s of
              [] \<Rightarrow> []
            | c # cs \<Rightarrow>
                if startswith s old then new @ replace_all old new (drop (length old) s)
                else c # replace_all old new cs))"
  by pat_completeness auto
termination
  by (relation "measure (\<lambda>(old, new, s). length s)") auto

declare replace_all.simps [simp del]

text \<open>\<open>str(n)\<close> for a natural number and \<open>int(s)\<close> for a string of decimal digits.\<close>

fun str_nat :: "nat \<Rightarrow> string" where
  "str_nat n = (if n < 10 then [char_of (48 + n)]
                else str_nat (n div 10) @ [char_of (48 + n mod 10)])"

declare str_nat.simps [simp del]

definition int_of_digits :: "string \<Rightarrow> int" where
  "int_of_digits s = foldl (\<lambda>acc c. 10 * acc + (int (ord c) - 48)) 0 s"

section \<open>Regular expressions\<close>

text \<open>
  The patterns of the program use single characters and classes, concatenation,
  alternation, greedy and lazy repetition of one character class, \<open>\b\<close>, a negative
  look-behind and a negative look-ahead on one character, and one capturing group.
  A position is the character before it (if any), the text after it and the text of
  group 1 so far.  \<open>ms\<close> lists the positions where a match starting at a position can
  end, in the order in which the backtracking matcher of \<open>re\<close> tries them: the head of
  the list is the match that \<open>re\<close> reports.  The flag \<open>ic\<close> is \<open>re.IGNORECASE\<close>.
\<close>

datatype atom = Lit char | AnyChar | Digit | Space | OneOf string

fun atom_match :: "bool \<Rightarrow> atom \<Rightarrow> char \<Rightarrow> bool" where
  "atom_match ic (Lit p) c = (if ic then lower_char c = lower_char p else c = p)"
| "atom_match ic AnyChar c = (c \<noteq> CHR 0x0A)"
| "atom_match ic Digit c = isdecimal c"
| "atom_match ic Space c = isspace c"
| "atom_match ic (OneOf cs) c = (c \<in> set cs)"

datatype regex = Atom atom | Eps | Cat regex regex | Alt regex regex
  | Star atom | StarLazy atom | Plus atom | WordB | NotBehind char | NotAhead char
  | Group regex

type_synonym mstate = "char option \<times> string \<times> string option"

fun star_greedy :: "bool \<Rightarrow> atom \<Rightarrow> mstate \<Rightarrow> mstate list" where
  "star_greedy ic a (p, [], g) = [(p, [], g)]"
| "star_greedy ic a (p, c # cs, g) =
     (if atom_match ic a c then star_greedy ic a (Some c, cs, g) else []) @ [(p, c # cs, g)]"

fun star_lazy :: "bool \<Rightarrow> atom \<Rightarrow> mstate \<Rightarrow> mstate list" where
  "star_lazy ic a (p, [], g) = [(p, [], g)]"
| "star_lazy ic a (p, c # cs, g) =
     (p, c # cs, g) # (if atom_match ic a c then star_lazy ic a (Some c, cs, g) else [])"

definition word_before :: "char option \<Rightarrow> bool" where
  "word_before p = (case p of None \<Rightarrow> False | Some c \<Rightarrow> isword c)"

definition word_here :: "string \<Rightarrow> bool" where
  "word_here s = (case s of [] \<Rightarrow> False | c # _ \<Rightarrow> isword c)"

fun ms :: "bool \<Rightarrow> regex \<Rightarrow> mstate \<Rightarrow> mstate list" where
  "ms ic (Atom a) (p, s, g) =
     (case s of [] \<Rightarrow> [] | c # cs \<Rightarrow> if atom_match ic a c then [(Some c, cs, g)] else [])"
| "ms ic Eps st = [st]"
| "ms ic (Cat r1 r2) st = concat (map (ms ic r2) (ms ic r1 st))"
| "ms ic (Alt r1 r2) st = ms ic r1 st @ ms ic r2 st"
| "ms ic (Star a) st = star_greedy ic a st"
| "ms ic (StarLazy a) st = star_lazy ic a st"
| "ms ic (Plus a) (p, s, g) =
     (case s of [] \<Rightarrow> []
      | c # cs \<Rightarrow> if atom_match ic a c then star_greedy ic a (Some c, cs, g) else [])"
| "ms ic WordB (p, s, g) = (if word_before p \<noteq> word_here s then [(p, s, g)] else [])"
| "ms ic (NotBehind c) (p, s, g) = (if p = Some c then [] else [(p, s, g)])"
| "ms ic (NotAhead c) (p, s, g) =
     (case s of [] \<Rightarrow> [(p, s, g)] | c' # _ \<Rightarrow> if c' = c then [] else [(p, s, g)])"
| "ms ic (Group r) (p, s, g) =
     map (\<lambda>(p', s', g'). (p', s', Some (take (length s - length s') s))) (ms ic r (p, s, g))"

text \<open>A match object: \<open>group(0)\<close> and \<open>group(1)\<close>.\<close>

record re_match =
  m_text :: string
  m_group :: "string option"

definition mk_match :: "string \<Rightarrow> string \<Rightarrow> string option \<Rightarrow> re_match" where
  "mk_match s s' g = \<lparr>m_text = take (length s - length s') s, m_group = g\<rparr>"

text \<open>
  The first match at one position; with \<open>adv\<close> the match must not be empty (the
  matcher's rule after an empty match at the same position).
\<close>

definition first_match ::
  "bool \<Rightarrow> regex \<Rightarrow> bool \<Rightarrow> char option \<Rightarrow> string \<Rightarrow> mstate option" where
  "first_match ic r adv p s =
     (case (if adv then filter (\<lambda>(p', s', g). length s' < length s) (ms ic r (p, s, None))
            else ms ic r (p, s, None)) of
        [] \<Rightarrow> None | x # _ \<Rightarrow> Some x)"

text \<open>\<open>re.search\<close>: the first match at the leftmost position that has one.\<close>

fun search_from :: "bool \<Rightarrow> regex \<Rightarrow> char option \<Rightarrow> string \<Rightarrow> re_match option" where
  "search_from ic r p s =
     (case first_match ic r False p s of
        Some (p', s', g) \<Rightarrow> Some (mk_match s s' g)
      | None \<Rightarrow> (case s of [] \<Rightarrow> None | c # cs \<Rightarrow> search_from ic r (Some c) cs))"

definition re_search :: "bool \<Rightarrow> regex \<Rightarrow> string \<Rightarrow> re_match option" where
  "re_search ic r s = search_from ic r None s"

text \<open>\<open>re.fullmatch\<close>: the first match from the start that ends at the end.\<close>

definition re_fullmatch :: "bool \<Rightarrow> regex \<Rightarrow> string \<Rightarrow> re_match option" where
  "re_fullmatch ic r s =
     (case filter (\<lambda>(p', s', g). s' = []) (ms ic r (None, s, None)) of
        [] \<Rightarrow> None | (p', s', g) # _ \<Rightarrow> Some (mk_match s s' g))"

lemma first_match_adv:
  "first_match ic r adv p s = Some (p', s', g) \<Longrightarrow> \<not> length s' < length s \<Longrightarrow> \<not> adv"
  unfolding first_match_def
  by (auto split: list.splits if_splits dest!: Cons_eq_filterD[OF sym])

text \<open>
  \<open>re.sub\<close> with a replacement function that may keep a state (the closure of
  \<open>replace_year_in_paren\<close> does): matches are taken left to right and do not overlap;
  after an empty match the next one at the same position must not be empty, and where
  there is none the character is copied.
\<close>

function sub_from ::
  "bool \<Rightarrow> regex \<Rightarrow> ('st \<Rightarrow> re_match \<Rightarrow> string \<times> 'st) \<Rightarrow> 'st \<Rightarrow> char option \<Rightarrow> string \<Rightarrow> bool
     \<Rightarrow> string \<times> 'st" where
  "sub_from ic r f st p s adv =
     (case first_match ic r adv p s of
        None \<Rightarrow>
          (case s of
             [] \<Rightarrow> ([], st)
           | c # cs \<Rightarrow>
               (case sub_from ic r f st (Some c) cs False of (out, st') \<Rightarrow> (c # out, st')))
      | Some (p', s', g) \<Rightarrow>
          (case f st (mk_match s s' g) of
             (rep, st1) \<Rightarrow>
               (case (if length s' < length s then sub_from ic r f st1 p' s' False
                      else sub_from ic r f st1 p s True) of
                  (out, st2) \<Rightarrow> (rep @ out, st2))))"
  by pat_completeness auto
termination
  apply (relation "measure (\<lambda>(ic, r, f, st, p, s, adv). 2 * length s + (if adv then 0 else 1))")
     apply simp
    apply simp
   apply simp
  apply (auto dest: first_match_adv)
  done

definition re_sub_fn ::
  "bool \<Rightarrow> regex \<Rightarrow> ('st \<Rightarrow> re_match \<Rightarrow> string \<times> 'st) \<Rightarrow> 'st \<Rightarrow> string \<Rightarrow> string \<times> 'st" where
  "re_sub_fn ic r f st s = sub_from ic r f st None s False"

definition re_sub :: "bool \<Rightarrow> regex \<Rightarrow> string \<Rightarrow> string \<Rightarrow> string" where
  "re_sub ic r rep s = fst (re_sub_fn ic r (\<lambda>st m. (rep, st)) () s)"

text \<open>A literal string as a pattern: what \<open>re.escape\<close> makes of a word.\<close>

fun lits :: "string \<Rightarrow> regex" where
  "lits [] = Eps"
| "lits (c # cs) = Cat (Atom (Lit c)) (lits cs)"

subsection \<open>The patterns of the program\<close>

text \<open>\<open>(19\d{2}|20\d{2}|21\d{2}|2200)\<close>\<close>

definition year_group :: regex where
  "year_group =
     Group (Alt (Cat (lits ''19'') (Cat (Atom Digit) (Atom Digit)))
           (Alt (Cat (lits ''20'') (Cat (Atom Digit) (Atom Digit)))
           (Alt (Cat (lits ''21'') (Cat (Atom Digit) (Atom Digit)))
                (lits ''2200''))))"

text \<open>\<open>\b(19\d{2}|20\d{2}|21\d{2}|2200)\b\<close>\<close>

definition year_token_re :: regex where
  "year_token_re = Cat WordB (Cat year_group WordB)"

text \<open>\<open>\[.*?\]\<close>\<close>

definition brackets_re :: regex where
  "brackets_re = Cat (Atom (Lit CHR ''['')) (Cat (StarLazy AnyChar) (Atom (Lit CHR '']'')))"

text \<open>\<open>r'\b' + re.escape(word) + r'\b'\<close>\<close>

definition noise_re :: "string \<Rightarrow> regex" where
  "noise_re word = Cat WordB (Cat (lits word) WordB)"

text \<open>\<open>\((.*?)\)\<close> and \<open>\(.*?\)\<close>\<close>

definition paren_group_re :: regex where
  "paren_group_re =
     Cat (Atom (Lit CHR ''('')) (Cat (Group (StarLazy AnyChar)) (Atom (Lit CHR '')'')))"

definition parens_re :: regex where
  "parens_re = Cat (Atom (Lit CHR ''('')) (Cat (StarLazy AnyChar) (Atom (Lit CHR '')'')))"

text \<open>\<open>(?<!\()\b(19\d{2}|20\d{2}|21\d{2}|2200)\b(?!\))\<close>\<close>

definition bare_year_re :: regex where
  "bare_year_re =
     Cat (NotBehind CHR ''('') (Cat WordB (Cat year_group (Cat WordB (NotAhead CHR '')''))))"

text \<open>\<open>\s*\((19\d{2}|20\d{2}|21\d{2}|2200)\)\s*\<close>\<close>

definition paren_year_re :: regex where
  "paren_year_re =
     Cat (Star Space) (Cat (Atom (Lit CHR ''('')) (Cat year_group
       (Cat (Atom (Lit CHR '')'')) (Star Space))))"

text \<open>\<open>\s+\<close> and \<open>[:\\/*?"<>|]\<close>\<close>

definition spaces_re :: regex where
  "spaces_re = Plus Space"

definition illegal_re :: regex where
  "illegal_re = Atom (OneOf [CHR '':'', CHR 0x5C, CHR ''/'', CHR ''*'', CHR ''?'', CHR 0x22,
                             CHR ''<'', CHR ''>'', CHR ''|''])"

section \<open>Paths\<close>

text \<open>
  \<open>os.path\<close> as \<open>posixpath\<close> has it: the separator is \<open>/\<close>.  \<open>rfind\<close> is
  \<open>str.rfind\<close> for one character, \<open>-1\<close> when it does not occur.
\<close>

fun rfind :: "char \<Rightarrow> string \<Rightarrow> int" where
  "rfind c [] = -1"
| "rfind c (x # xs) =
     (let r = rfind c xs in if 0 \<le> r then r + 1 else if x = c then 0 else -1)"

definition os_path_basename :: "string \<Rightarrow> string" where
  "os_path_basename p = drop (nat (rfind CHR ''/'' p + 1)) p"

definition rstrip_sep :: "string \<Rightarrow> string" where
  "rstrip_sep s = rev (dropWhile (\<lambda>c. c = CHR ''/'') (rev s))"

definition os_path_dirname :: "string \<Rightarrow> string" where
  "os_path_dirname p =
     (let head = take (nat (rfind CHR ''/'' p + 1)) p
      in if head \<noteq> [] \<and> head \<noteq> replicate (length head) CHR ''/'' then rstrip_sep head
         else head)"

definition os_path_join :: "string \<Rightarrow> string \<Rightarrow> string" where
  "os_path_join a b =
     (if startswith b ''/'' then b
      else if a = [] \<or> last a = CHR ''/'' then a @ b
      else a @ ''/'' @ b)"

text \<open>
  \<open>os.path.splitext\<close>: the extension starts at the last dot of the last component,
  unless only dots come before it in that component.
\<close>

definition os_path_splitext :: "string \<Rightarrow> string \<times> string" where
  "os_path_splitext p =
     (let sepIndex = rfind CHR ''/'' p; dotIndex = rfind CHR ''.'' p
      in if dotIndex > sepIndex \<and>
            (\<exists>c \<in> set (take (nat (dotIndex - (sepIndex + 1))) (drop (nat (sepIndex + 1)) p)).
               c \<noteq> CHR ''.'')
         then (take (nat dotIndex) p, drop (nat dotIndex) p)
         else (p, []))"

section \<open>The year extractor and the normalizer\<close>

text \<open>
  The configuration that \<open>verify_and_load_config\<close> stores in the global variables.
\<close>

record config =
  WORDS_TO_REMOVE :: "string list"
  SIMILARITY_AUTO :: int
  SIMILARITY_ASK :: int
  YEAR_DIFF_AUTO :: int

definition extract_year_from_filename :: "string \<Rightarrow> int option" where
  "extract_year_from_filename filename_str =
     (case re_search False year_token_re filename_str of
        Some m \<Rightarrow> map_option int_of_digits (m_group m)
      | None \<Rightarrow> None)"

definition placeholder_base :: string where
  "placeholder_base = ''___YEAR_PLACEHOLDER___''"

text \<open>
  The closure \<open>replace_year_in_paren\<close>; its dictionary is an association list in
  insertion order, which is the order \<open>items()\<close> yields.
\<close>

definition replace_year_in_paren ::
  "(string \<times> string) list \<Rightarrow> re_match \<Rightarrow> string \<times> (string \<times> string) list" where
  "replace_year_in_paren years_in_parens_placeholders match_obj =
     (case m_group match_obj of
        None \<Rightarrow> (m_text match_obj, years_in_parens_placeholders)
      | Some content_inside_paren \<Rightarrow>
          (case re_fullmatch False year_group content_inside_paren of
             Some year_match_inside_paren \<Rightarrow>
               (case m_group year_match_inside_paren of
                  Some year_str \<Rightarrow>
                    (let placeholder =
                           placeholder_base @ str_nat (length years_in_parens_placeholders)
                     in (placeholder,
                         years_in_parens_placeholders
                           @ [(placeholder, ''('' @ year_str @ '')'')]))
                | None \<Rightarrow> (m_text match_obj, years_in_parens_placeholders))
           | None \<Rightarrow> (m_text match_obj, years_in_parens_placeholders)))"

definition remove_words :: "string list \<Rightarrow> string \<Rightarrow> string" where
  "remove_words ws name = foldl (\<lambda>name word. re_sub True (noise_re word) [] name) name ws"

definition restore_placeholders :: "(string \<times> string) list \<Rightarrow> string \<Rightarrow> string" where
  "restore_placeholders d name =
     foldl (\<lambda>name (placeholder, original_year_in_paren).
              replace_all placeholder original_year_in_paren name) name d"

definition extract_basename :: "config \<Rightarrow> string \<Rightarrow> string" where
  "extract_basename cfg file_path =
     (let base_name_ext = os_path_basename file_path;
          stem = fst (os_path_splitext base_name_ext);
          name1 = re_sub False brackets_re [] stem;
          name2 = remove_words (WORDS_TO_REMOVE cfg) name1;
          (name3, placeholders) = re_sub_fn False paren_group_re replace_year_in_paren [] name2;
          name4 = re_sub False parens_re [] name3;
          name5 = strip (re_sub False bare_year_re [] name4);
          name6 = restore_placeholders placeholders name5;
          name7 = strip (re_sub False paren_year_re '' '' name6);
          name8 = strip (replace_all ''.'' '' '' name7);
          name9 = strip (re_sub False spaces_re '' '' name8)
      in if name9 \<noteq> [] then name9 else stem)"

text \<open>
  The same pipeline as nested applications, so that each intermediate name is computed
  once when \<open>extract_basename\<close> is evaluated.
\<close>

definition name_or_stem :: "string \<Rightarrow> string \<Rightarrow> string" where
  "name_or_stem stem name = (if name \<noteq> [] then name else stem)"

definition after_placeholders :: "string \<times> (string \<times> string) list \<Rightarrow> string" where
  "after_placeholders np =
     (case np of (name3, placeholders) \<Rightarrow>
        strip (re_sub False spaces_re '' ''
          (strip (replace_all ''.'' '' ''
            (strip (re_sub False paren_year_re '' ''
              (restore_placeholders placeholders
                (strip (re_sub False bare_year_re []
                  (re_sub False parens_re [] name3))))))))))"

definition from_stem :: "config \<Rightarrow> string \<Rightarrow> string" where
  "from_stem cfg stem =
     name_or_stem stem
       (after_placeholders
         (re_sub_fn False paren_group_re replace_year_in_paren []
           (remove_words (WORDS_TO_REMOVE cfg) (re_sub False brackets_re [] stem))))"

lemma extract_basename_code [code]:
  "extract_basename cfg file_path =
     from_stem cfg (fst (os_path_splitext (os_path_basename file_path)))"
  by (simp add: extract_basename_def from_stem_def after_placeholders_def name_or_stem_def
      Let_def split: prod.splits)

definition sanitize_filename :: "string \<Rightarrow> string" where
  "sanitize_filename name = strip (re_sub False spaces_re '' '' (re_sub False illegal_re [] name))"

text \<open>The default of \<open>WORDS_TO_REMOVE_FROM_FILENAME\<close> in \<open>verify_and_load_config\<close>.\<close>

definition default_words_to_remove :: "string list" where
  "default_words_to_remove =
     [''720p'', ''1080p'', ''2160p'', ''4k'', ''480p'', ''dvd'', ''xvid'', ''mp3'', ''ac3'',
      ''6ch'', ''5.1'', ''bluray'', ''web-dl'', ''webrip'', ''hdtv'', ''hdrip'', ''x264'',
      ''h264'', ''x265'', ''hevc'', ''extended'', ''uncut'', ''remastered'',
      ''director'' @ [CHR 0x27] @ ''s cut'', ''final cut'', ''multi'', ''dual'']"

definition default_config :: config where
  "default_config =
     \<lparr>WORDS_TO_REMOVE = default_words_to_remove, SIMILARITY_AUTO = 100,
      SIMILARITY_ASK = 85, YEAR_DIFF_AUTO = 1\<rparr>"

section \<open>The similarity scorer\<close>

text \<open>
  \<open>calculate_similarity\<close> calls \<open>difflib.SequenceMatcher(None, a, b).ratio()\<close> of the
  Python standard library.  The definitions below follow \<open>SequenceMatcher\<close> for that
  call: no junk function, the automatic junk heuristic switched on.  The ratio is
  computed on real numbers, where Python rounds to a float.

  \<open>b2j\<close> gives for an element the ascending positions where it occurs in \<open>b\<close>; the
  heuristic drops the elements that occur more than \<open>n // 100 + 1\<close> times once \<open>b\<close>
  has 200 elements or more.
\<close>

definition popular :: "string \<Rightarrow> char \<Rightarrow> bool" where
  "popular b elt = (200 \<le> length b \<and> length b div 100 + 1 < count_list b elt)"

definition b2j :: "string \<Rightarrow> char \<Rightarrow> nat list" where
  "b2j b elt = (if popular b elt then [] else filter (\<lambda>j. b ! j = elt) [0..<length b])"

type_synonym block = "nat \<times> nat \<times> nat"

text \<open>
  The inner loop of \<open>find_longest_match\<close> over the positions \<open>j\<close> of \<open>a[i]\<close> in
  \<open>b\<close>; the dictionaries \<open>j2len\<close> and \<open>newj2len\<close> are association lists.
\<close>

definition j2lenget :: "(nat \<times> nat) list \<Rightarrow> nat \<Rightarrow> nat" where
  "j2lenget j2len j =
     (if j = 0 then 0 else (case map_of j2len (j - 1) of None \<Rightarrow> 0 | Some v \<Rightarrow> v))"

fun flm_inner ::
  "nat \<Rightarrow> nat \<Rightarrow> nat \<Rightarrow> (nat \<times> nat) list \<Rightarrow> nat list \<Rightarrow> block \<times> (nat \<times> nat) list
     \<Rightarrow> block \<times> (nat \<times> nat) list" where
  "flm_inner i blo bhi j2len [] acc = acc"
| "flm_inner i blo bhi j2len (j # js) (best, newj2len) =
     (if j < blo then flm_inner i blo bhi j2len js (best, newj2len)
      else if bhi \<le> j then (best, newj2len)
      else (let k = j2lenget j2len j + 1
            in flm_inner i blo bhi j2len js
                 (if snd (snd best) < k then (i + 1 - k, j + 1 - k, k) else best,
                  (j, k) # newj2len)))"

fun flm_outer ::
  "string \<Rightarrow> string \<Rightarrow> nat \<Rightarrow> nat \<Rightarrow> nat list \<Rightarrow> block \<times> (nat \<times> nat) list
     \<Rightarrow> block \<times> (nat \<times> nat) list" where
  "flm_outer a b blo bhi [] acc = acc"
| "flm_outer a b blo bhi (i # is) (best, j2len) =
     flm_outer a b blo bhi is (flm_inner i blo bhi j2len (b2j b (a ! i)) (best, []))"

text \<open>
  The two loops that extend the best block by elements that are not junk (the popular
  ones are not in \<open>b2j\<close>).  The set \<open>bjunk\<close> is empty, so the two loops that extend
  by junk never run.
\<close>

function extend_left :: "string \<Rightarrow> string \<Rightarrow> nat \<Rightarrow> nat \<Rightarrow> block \<Rightarrow> block" where
  "extend_left a b alo blo (besti, bestj, bestsize) =
     (if alo < besti \<and> blo < bestj \<and> a ! (besti - 1) = b ! (bestj - 1)
      then extend_left a b alo blo (besti - 1, bestj - 1, bestsize + 1)
      else (besti, bestj, bestsize))"
  by pat_completeness auto
termination
  by (relation "measure (\<lambda>(a, b, alo, blo, besti, bestj, bestsize). besti)") auto

function extend_right :: "string \<Rightarrow> string \<Rightarrow> nat \<Rightarrow> nat \<Rightarrow> block \<Rightarrow> block" where
  "extend_right a b ahi bhi (besti, bestj, bestsize) =
     (if besti + bestsize < ahi \<and> bestj + bestsize < bhi
         \<and> a ! (besti + bestsize) = b ! (bestj + bestsize)
      then extend_right a b ahi bhi (besti, bestj, bestsize + 1)
      else (besti, bestj, bestsize))"
  by pat_completeness auto
termination
  by (relation "measure (\<lambda>(a, b, ahi, bhi, besti, bestj, bestsize). ahi - (besti + bestsize))")
    auto

definition find_longest_match :: "string \<Rightarrow> string \<Rightarrow> nat \<Rightarrow> nat \<Rightarrow> nat \<Rightarrow> nat \<Rightarrow> block" where
  "find_longest_match a b alo ahi blo bhi =
     extend_right a b ahi bhi
       (extend_left a b alo blo
         (fst (flm_outer a b blo bhi [alo..<ahi] ((alo, blo, 0), []))))"

declare extend_left.simps [simp del]
declare extend_right.simps [simp del]

text \<open>
  The block that \<open>find_longest_match\<close> returns lies inside the two ranges; the loop of
  \<open>get_matching_blocks\<close> terminates because of that.
\<close>

definition lens_ok :: "nat \<Rightarrow> nat \<Rightarrow> nat \<Rightarrow> (nat \<times> nat) list \<Rightarrow> bool" where
  "lens_ok alo blo i j2len = (\<forall>(j, v) \<in> set j2len. v + alo \<le> i \<and> v + blo \<le> j + 1)"

definition best_ok :: "nat \<Rightarrow> nat \<Rightarrow> nat \<Rightarrow> nat \<Rightarrow> block \<Rightarrow> bool" where
  "best_ok alo ahi blo bhi best =
     (case best of (i, j, k) \<Rightarrow>
        (k = 0 \<and> i = alo \<and> j = blo) \<or>
        (0 < k \<and> alo \<le> i \<and> blo \<le> j \<and> i + k \<le> ahi \<and> j + k \<le> bhi))"

lemma j2lenget_bound:
  "lens_ok alo blo i j2len \<Longrightarrow> alo \<le> i \<Longrightarrow> blo \<le> j \<Longrightarrow>
   j2lenget j2len j + alo \<le> i \<and> j2lenget j2len j + blo \<le> j"
  by (auto simp: j2lenget_def lens_ok_def split: option.splits dest!: map_of_SomeD)

lemma flm_inner_ok:
  "lens_ok alo blo i j2len \<Longrightarrow> alo \<le> i \<Longrightarrow> i < ahi \<Longrightarrow> best_ok alo ahi blo bhi best \<Longrightarrow>
   lens_ok alo blo (Suc i) newj2len \<Longrightarrow>
   flm_inner i blo bhi j2len js (best, newj2len) = (best', n') \<Longrightarrow>
   best_ok alo ahi blo bhi best' \<and> lens_ok alo blo (Suc i) n'"
proof (induction js arbitrary: best newj2len)
  case Nil
  then show ?case by simp
next
  case (Cons j js)
  show ?case
  proof (cases "j < blo")
    case True
    with Cons show ?thesis by simp
  next
    case False
    note nlt = this
    show ?thesis
    proof (cases "bhi \<le> j")
      case True
      with nlt Cons.prems show ?thesis by simp
    next
      case False
      define k where "k = j2lenget j2len j + 1"
      have kb: "k + alo \<le> i + 1" "k + blo \<le> j + 1" "0 < k"
        using j2lenget_bound[OF Cons.prems(1,2), of j] nlt by (auto simp: k_def)
      let ?best = "if snd (snd best) < k then (i + 1 - k, j + 1 - k, k) else best"
      have b: "best_ok alo ahi blo bhi ?best"
        using Cons.prems(3,4) kb False by (auto simp: best_ok_def)
      have l: "lens_ok alo blo (Suc i) ((j, k) # newj2len)"
        using Cons.prems(5) kb by (auto simp: lens_ok_def)
      have "flm_inner i blo bhi j2len js (?best, (j, k) # newj2len) = (best', n')"
        using Cons.prems(6) nlt False by (simp add: k_def Let_def del: if_split cong: if_cong)
      from Cons.IH[OF Cons.prems(1,2,3) b l this] show ?thesis .
    qed
  qed
qed

lemma flm_outer_ok:
  "alo \<le> i0 \<Longrightarrow> best_ok alo ahi blo bhi best \<Longrightarrow> lens_ok alo blo i0 j2len \<Longrightarrow>
   best_ok alo ahi blo bhi (fst (flm_outer a b blo bhi [i0..<ahi] (best, j2len)))"
proof (induction "ahi - i0" arbitrary: i0 best j2len)
  case 0
  then show ?case by simp
next
  case (Suc n)
  then have lt: "i0 < ahi" by simp
  obtain best' n' where e: "flm_inner i0 blo bhi j2len (b2j b (a ! i0)) (best, []) = (best', n')"
    by (cases "flm_inner i0 blo bhi j2len (b2j b (a ! i0)) (best, [])") auto
  have "lens_ok alo blo (Suc i0) []" by (simp add: lens_ok_def)
  from flm_inner_ok[OF Suc.prems(3) Suc.prems(1) lt Suc.prems(2) this e]
  have ok: "best_ok alo ahi blo bhi best'" "lens_ok alo blo (Suc i0) n'" by auto
  have "n = ahi - Suc i0" using Suc.hyps(2) by simp
  from Suc.hyps(1)[OF this _ ok] Suc.prems(1)
  have "best_ok alo ahi blo bhi (fst (flm_outer a b blo bhi [Suc i0..<ahi] (best', n')))" by simp
  then show ?case using lt e by (simp add: upt_conv_Cons)
qed

lemma extend_left_ok:
  "best_ok alo ahi blo bhi best \<Longrightarrow> best_ok alo ahi blo bhi (extend_left a b alo blo best)"
proof (induction a b alo blo best rule: extend_left.induct)
  case (1 a b alo blo besti bestj bestsize)
  show ?case
  proof (cases "alo < besti \<and> blo < bestj \<and> a ! (besti - 1) = b ! (bestj - 1)")
    case True
    have "best_ok alo ahi blo bhi (besti - 1, bestj - 1, bestsize + 1)"
      using 1(2) True by (auto simp: best_ok_def)
    from 1(1)[OF True this] True show ?thesis by (subst extend_left.simps) simp
  next
    case False
    then show ?thesis using 1(2) by (subst extend_left.simps) auto
  qed
qed

lemma extend_right_ok:
  "best_ok alo ahi blo bhi best \<Longrightarrow> best_ok alo ahi blo bhi (extend_right a b ahi bhi best)"
proof (induction a b ahi bhi best rule: extend_right.induct)
  case (1 a b ahi bhi besti bestj bestsize)
  show ?case
  proof (cases "besti + bestsize < ahi \<and> bestj + bestsize < bhi
         \<and> a ! (besti + bestsize) = b ! (bestj + bestsize)")
    case True
    have "best_ok alo ahi blo bhi (besti, bestj, bestsize + 1)"
      using 1(2) True by (auto simp: best_ok_def)
    from 1(1)[OF True this] True show ?thesis by (subst extend_right.simps) simp
  next
    case False
    then show ?thesis using 1(2) by (subst extend_right.simps) auto
  qed
qed

lemma find_longest_match_ok:
  "best_ok alo ahi blo bhi (find_longest_match a b alo ahi blo bhi)"
  unfolding find_longest_match_def
  by (intro extend_right_ok extend_left_ok flm_outer_ok) (simp_all add: best_ok_def lens_ok_def)

lemma find_longest_match_bounds:
  "find_longest_match a b alo ahi blo bhi = (i, j, k) \<Longrightarrow> k \<noteq> 0 \<Longrightarrow>
   alo \<le> i \<and> blo \<le> j \<and> i + k \<le> ahi \<and> j + k \<le> bhi"
  using find_longest_match_ok[of alo ahi blo bhi a b] by (auto simp: best_ok_def)


text \<open>
  The loop of \<open>get_matching_blocks\<close>: \<open>queue\<close> is used as a stack, its head is the
  element that \<open>pop()\<close> takes.
\<close>

definition region_weight :: "nat \<times> nat \<times> nat \<times> nat \<Rightarrow> nat" where
  "region_weight q = (case q of (alo, ahi, blo, bhi) \<Rightarrow> 2 * (ahi - alo) + 1)"

function matching_blocks_loop ::
  "string \<Rightarrow> string \<Rightarrow> (nat \<times> nat \<times> nat \<times> nat) list \<Rightarrow> block list \<Rightarrow> block list" where
  "matching_blocks_loop a b [] matching_blocks = matching_blocks"
| "matching_blocks_loop a b ((alo, ahi, blo, bhi) # queue) matching_blocks =
     (case find_longest_match a b alo ahi blo bhi of
        (i, j, k) \<Rightarrow>
          if k \<noteq> 0
          then matching_blocks_loop a b
                 ((if i + k < ahi \<and> j + k < bhi then [(i + k, ahi, j + k, bhi)] else [])
                  @ (if alo < i \<and> blo < j then [(alo, i, blo, j)] else []) @ queue)
                 (matching_blocks @ [(i, j, k)])
          else matching_blocks_loop a b queue matching_blocks)"
  by pat_completeness auto
termination
proof (relation "measure (\<lambda>(a, b, queue, blocks). sum_list (map region_weight queue))",
    goal_cases)
  case 1
  show ?case by simp
next
  case prems: (2 a b alo ahi blo bhi)
  show ?case
    using prems
    by (auto simp: region_weight_def dest!: find_longest_match_bounds[OF sym])
next
  case 3
  show ?case by (simp add: region_weight_def)
qed

text \<open>
  After the loop the blocks are sorted and adjacent blocks are merged; the last triple
  is the sentinel.
\<close>

fun collapse :: "block \<Rightarrow> block list \<Rightarrow> block list" where
  "collapse (i1, j1, k1) [] = (if k1 \<noteq> 0 then [(i1, j1, k1)] else [])"
| "collapse (i1, j1, k1) ((i2, j2, k2) # bs) =
     (if i1 + k1 = i2 \<and> j1 + k1 = j2 then collapse (i1, j1, k1 + k2) bs
      else (if k1 \<noteq> 0 then [(i1, j1, k1)] else []) @ collapse (i2, j2, k2) bs)"

definition get_matching_blocks :: "string \<Rightarrow> string \<Rightarrow> block list" where
  "get_matching_blocks a b =
     collapse (0, 0, 0) (sort (matching_blocks_loop a b [(0, length a, 0, length b)] []))
     @ [(length a, length b, 0)]"

definition calculate_ratio :: "nat \<Rightarrow> nat \<Rightarrow> real" where
  "calculate_ratio matches len = (if len \<noteq> 0 then 2 * real matches / real len else 1)"

definition ratio :: "string \<Rightarrow> string \<Rightarrow> real" where
  "ratio a b =
     calculate_ratio (sum_list (map (\<lambda>triple. snd (snd triple)) (get_matching_blocks a b)))
       (length a + length b)"

definition calculate_similarity :: "string \<Rightarrow> string \<Rightarrow> real" where
  "calculate_similarity a b = ratio a b * 100"

text \<open>The number of matched elements in a list of blocks, and the size of a region.\<close>

definition total :: "block list \<Rightarrow> nat" where
  "total bs = sum_list (map (\<lambda>triple. snd (snd triple)) bs)"

definition region_size :: "nat \<times> nat \<times> nat \<times> nat \<Rightarrow> nat" where
  "region_size q = (case q of (alo, ahi, blo, bhi) \<Rightarrow> (ahi - alo) + (bhi - blo))"

section \<open>The file system, the terminal and the audit log\<close>

text \<open>
  What \<open>rename_file\<close> and \<open>log_rename\<close> act on is a state of its own:
  \<^item> \<open>files\<close>: the regular files, each a stored name and a content; two names denote
    the same file when they are equal, or equal up to letter case on a
    case-insensitive file system (\<open>posix\<close> semantics: renaming onto an existing file
    replaces it; directories and path normalisation are not modelled);
  \<^item> \<open>refused\<close>: the calls that the operating system fails with an \<open>OSError\<close>
    (permissions, a read-only or full disk), besides a missing source;
  \<^item> \<open>log_file\<close>: the entries written to \<open>rename.log\<close>, oldest first;
  \<^item> \<open>now\<close>: the timestamp that \<open>strftime\<close> returns;
  \<^item> \<open>stdin\<close>: the lines the user will type, \<open>stdout\<close>: the messages printed so far
    (the messages that tell an outcome; debug output is left out).
\<close>

datatype os_call = Remove string | Rename string string | Replace string string | Append_log

datatype exn = OSError | EOFError | AttributeError | ValueError

datatype 'a outcome = Return 'a | Raise exn

datatype message =
    Already_named
  | Renamed_to string
  | Case_rename_error
  | Overwrite_prompt string
  | Invalid_answer
  | Will_not_rename
  | Rename_error
  | Skip_already_tagged string
  | Metadata_error string
  | Skip_no_id string
  | Skip_no_final_id string
  | No_valid_tag
  | Proposal string
  | Auto_by_tag
  | Auto_by_similarity
  | Confirm_prompt
  | Not_renamed_by_user
  | Similarity_too_low
  | Unexpected_error

record world =
  files :: "(string \<times> string) list"
  case_insensitive :: bool
  refused :: "os_call \<Rightarrow> bool"
  log_file :: "string list"
  now :: string
  stdin :: "string list"
  stdout :: "message list"

definition print :: "world \<Rightarrow> message \<Rightarrow> world" where
  "print w m = w\<lparr>stdout := stdout w @ [m]\<rparr>"

definition same_file :: "world \<Rightarrow> string \<Rightarrow> string \<Rightarrow> bool" where
  "same_file w a b = (if case_insensitive w then lower a = lower b else a = b)"

definition os_path_exists :: "world \<Rightarrow> string \<Rightarrow> bool" where
  "os_path_exists w p = list_ex (\<lambda>(n, c). same_file w n p) (files w)"

definition os_remove :: "world \<Rightarrow> string \<Rightarrow> unit outcome \<times> world" where
  "os_remove w p =
     (if refused w (Remove p) \<or> \<not> os_path_exists w p then (Raise OSError, w)
      else (Return (), w\<lparr>files := filter (\<lambda>(n, c). \<not> same_file w n p) (files w)\<rparr>))"

definition move_file :: "world \<Rightarrow> string \<Rightarrow> string \<Rightarrow> world" where
  "move_file w src dst =
     (case find (\<lambda>(n, c). same_file w n src) (files w) of
        None \<Rightarrow> w
      | Some (n, c) \<Rightarrow>
          w\<lparr>files := (dst, c)
                # filter (\<lambda>(n', c'). \<not> same_file w n' src \<and> \<not> same_file w n' dst) (files w)\<rparr>)"

definition os_rename :: "world \<Rightarrow> string \<Rightarrow> string \<Rightarrow> unit outcome \<times> world" where
  "os_rename w src dst =
     (if refused w (Rename src dst) \<or> \<not> os_path_exists w src then (Raise OSError, w)
      else (Return (), move_file w src dst))"

definition os_replace :: "world \<Rightarrow> string \<Rightarrow> string \<Rightarrow> unit outcome \<times> world" where
  "os_replace w src dst =
     (if refused w (Replace src dst) \<or> \<not> os_path_exists w src then (Raise OSError, w)
      else (Return (), move_file w src dst))"

definition log_entry :: "world \<Rightarrow> string \<Rightarrow> string \<Rightarrow> string" where
  "log_entry w old_path new_path =
     ''['' @ now w @ ''] Renombrado: '' @ old_path @ '' -> '' @ new_path @ [CHR 0x0A]"

definition log_rename :: "world \<Rightarrow> string \<Rightarrow> string \<Rightarrow> unit outcome \<times> world" where
  "log_rename w old_path new_path =
     (if refused w Append_log then (Raise OSError, w)
      else (Return (), w\<lparr>log_file := log_file w @ [log_entry w old_path new_path]\<rparr>))"

text \<open>
  The loop \<open>while True: answer = input(prompt).strip().lower(); if answer in ['s', 'n']:
  break; print(invalid)\<close>.  It ends at the first line that is an answer; when the input
  ends before, \<open>input\<close> raises \<open>EOFError\<close>.
\<close>

fun prompt_loop ::
  "message \<Rightarrow> string list \<Rightarrow> message list \<Rightarrow> string outcome \<times> string list \<times> message list" where
  "prompt_loop prompt [] out = (Raise EOFError, [], out @ [prompt])"
| "prompt_loop prompt (line # rest) out =
     (if lower (strip line) = ''s'' \<or> lower (strip line) = ''n''
      then (Return (lower (strip line)), rest, out @ [prompt])
      else prompt_loop prompt rest (out @ [prompt, Invalid_answer]))"

definition ask :: "world \<Rightarrow> message \<Rightarrow> string outcome \<times> world" where
  "ask w prompt =
     (case prompt_loop prompt (stdin w) (stdout w) of
        (answer, rest, out) \<Rightarrow> (answer, w\<lparr>stdin := rest, stdout := out\<rparr>))"

section \<open>The rename executor\<close>

text \<open>The body of the \<open>try\<close> of the case-only branch.\<close>

definition try_case_rename :: "world \<Rightarrow> string \<Rightarrow> string \<Rightarrow> string \<Rightarrow> unit outcome \<times> world" where
  "try_case_rename w file_path temp_name new_path =
     (case (if os_path_exists w temp_name then os_remove w temp_name else (Return (), w)) of
        (Raise e, w1) \<Rightarrow> (Raise e, w1)
      | (Return _, w1) \<Rightarrow>
          (case os_rename w1 file_path temp_name of
             (Raise e, w2) \<Rightarrow> (Raise e, w2)
           | (Return _, w2) \<Rightarrow>
               (case os_rename w2 temp_name new_path of
                  (Raise e, w3) \<Rightarrow> (Raise e, w3)
                | (Return _, w3) \<Rightarrow>
                    log_rename (print w3 (Renamed_to new_path)) file_path new_path)))"

text \<open>The \<open>try\<close> at the end of \<open>rename_file\<close>, with its handler.\<close>

definition try_replace :: "world \<Rightarrow> string \<Rightarrow> string \<Rightarrow> bool outcome \<times> world" where
  "try_replace w file_path new_path =
     (case os_replace w file_path new_path of
        (Raise e, w1) \<Rightarrow> (Return False, print w1 Rename_error)
      | (Return _, w1) \<Rightarrow>
          (case log_rename (print w1 (Renamed_to new_path)) file_path new_path of
             (Raise e, w2) \<Rightarrow> (Return False, print w2 Rename_error)
           | (Return _, w2) \<Rightarrow> (Return True, w2)))"

definition new_path_of :: "string \<Rightarrow> string \<Rightarrow> string" where
  "new_path_of file_path new_name =
     os_path_join (os_path_dirname file_path) (new_name @ snd (os_path_splitext file_path))"

definition rename_file :: "world \<Rightarrow> string \<Rightarrow> string \<Rightarrow> bool outcome \<times> world" where
  "rename_file w file_path new_name =
     (let new_path = new_path_of file_path new_name
      in if file_path = new_path then (Return False, print w Already_named)
         else if os_path_exists w new_path then
           (if lower file_path = lower new_path \<and> file_path \<noteq> new_path then
              (let temp_name = new_path @ ''.renaming_temp''
               in case try_case_rename w file_path temp_name new_path of
                    (Return _, w1) \<Rightarrow> (Return True, w1)
                  | (Raise e, w1) \<Rightarrow>
                      (let w2 = print w1 Case_rename_error
                       in if os_path_exists w2 temp_name \<and> \<not> os_path_exists w2 file_path
                          then (case os_rename w2 temp_name file_path of
                                  (Raise e', w3) \<Rightarrow> (Raise e', w3)
                                | (Return _, w3) \<Rightarrow> (Return False, w3))
                          else (Return False, w2)))
            else
              (case ask w (Overwrite_prompt new_path) of
                 (Raise e, w1) \<Rightarrow> (Raise e, w1)
               | (Return overwrite, w1) \<Rightarrow>
                   if overwrite = ''n'' then (Return False, print w1 Will_not_rename)
                   else try_replace w1 file_path new_path))
         else try_replace w file_path new_path)"

section \<open>The decision engine\<close>

text \<open>
  The patterns of \<open>process_movie\<close> and \<open>get_identifiers\<close>:
  \<open>(?:tmdbid\s*=\s*|tmdb-)(\d+)\<close>, \<open>tmdbid|tmdb-\<close>, \<open>\{imdb-tt\d+\}\<close>,
  \<open>\{tmdb-\d+\}\<close>, \<open>(tt\d+)\<close> and \<open>(\d+)\<close>.
\<close>

definition tmdb_explicit_re :: regex where
  "tmdb_explicit_re =
     Cat (Alt (Cat (lits ''tmdbid'')
                 (Cat (Star Space) (Cat (Atom (Lit CHR ''='')) (Star Space))))
              (lits ''tmdb-''))
         (Group (Plus Digit))"

definition tmdb_presence_re :: regex where
  "tmdb_presence_re = Alt (lits ''tmdbid'') (lits ''tmdb-'')"

definition imdb_tag_re :: regex where
  "imdb_tag_re = Cat (lits ''{imdb-tt'') (Cat (Plus Digit) (Atom (Lit CHR ''}'')))"

definition tmdb_tag_re :: regex where
  "tmdb_tag_re = Cat (lits ''{tmdb-'') (Cat (Plus Digit) (Atom (Lit CHR ''}'')))"

definition imdb_id_re :: regex where
  "imdb_id_re = Group (Cat (lits ''tt'') (Plus Digit))"

definition digits_re :: regex where
  "digits_re = Group (Plus Digit)"

text \<open>
  What the program reads of the server's answers: of a \<open>Video\<close> element of a section
  listing the \<open>file\<close> attribute of its first \<open>Part\<close> (if any); of the metadata document
  of an item the \<open>id\<close> attributes of its \<open>Guid\<close> elements (\<open>""\<close> where the attribute is
  missing) and the \<open>title\<close> and \<open>year\<close> attributes of its first \<open>Video\<close> element (if
  there is one).  \<open>plex_request\<close> returns no document when the request or the parsing
  fails.
\<close>

record video =
  part_file :: "string option"

record metadata =
  guids :: "string list"
  video_attrs :: "(string option \<times> string option) option"

fun get_identifiers_loop ::
  "string list \<Rightarrow> string option \<times> string option \<Rightarrow> string option \<times> string option" where
  "get_identifiers_loop [] ids_found = ids_found"
| "get_identifiers_loop (guid_id # rest) (imdb, tmdb) =
     get_identifiers_loop rest
       (if contains guid_id ''imdb'' then
          (case re_search False imdb_id_re guid_id of
             Some match_imdb \<Rightarrow> (m_group match_imdb, tmdb)
           | None \<Rightarrow> (imdb, tmdb))
        else if contains guid_id ''tmdb'' then
          (case re_search False digits_re guid_id of
             Some match_tmdb \<Rightarrow> (imdb, m_group match_tmdb)
           | None \<Rightarrow> (imdb, tmdb))
        else (imdb, tmdb))"

definition get_identifiers :: "metadata \<Rightarrow> string option \<times> string option" where
  "get_identifiers metadata_xml = get_identifiers_loop (guids metadata_xml) (None, None)"

text \<open>\<open>x and x.lower() not in ["na", "n/a"]\<close>\<close>

definition valid_id :: "string option \<Rightarrow> bool" where
  "valid_id x =
     (case x of None \<Rightarrow> False | Some v \<Rightarrow> v \<noteq> [] \<and> lower v \<noteq> ''na'' \<and> lower v \<noteq> ''n/a'')"

datatype status =
    METADATA_ERROR_TMDB_DIRECT
  | NO_ID_FOR_TMDB_DIRECT_RENAME
  | TMDB_DIRECT_RENAME
  | ALREADY_FORMATTED_ID_TAG
  | METADATA_ERROR
  | NO_ID_FOUND
  | Similarity real

text \<open>The tuple that \<open>process_movie\<close> returns.\<close>

record movie_result =
  file_path :: string
  imdb_id :: "string option"
  tmdb_id :: "string option"
  title :: "string option"
  year :: "string option"
  base_name_from_file :: string
  skip_processing :: bool
  status_or_similarity :: status

text \<open>The truth value of an optional string: \<open>None\<close> and \<open>""\<close> are false.\<close>

definition valid_truthy :: "string option \<Rightarrow> bool" where
  "valid_truthy x = (case x of None \<Rightarrow> False | Some v \<Rightarrow> v \<noteq> [])"

definition attr_or :: "string option \<Rightarrow> string \<Rightarrow> string" where
  "attr_or a d = (case a of None \<Rightarrow> d | Some v \<Rightarrow> v)"

definition result ::
  "string \<Rightarrow> string option \<Rightarrow> string option \<Rightarrow> string option \<Rightarrow> string option \<Rightarrow> string
     \<Rightarrow> bool \<Rightarrow> status \<Rightarrow> movie_result" where
  "result fp imdb tmdb t y base skip st =
     \<lparr>file_path = fp, imdb_id = imdb, tmdb_id = tmdb, title = t, year = y,
      base_name_from_file = base, skip_processing = skip, status_or_similarity = st\<rparr>"

text \<open>
  The branch \<open>if proceed_with_tmdb_logic\<close>; \<open>find(".//Video").get(...)\<close> raises
  \<open>AttributeError\<close> when the document has no \<open>Video\<close> element.
\<close>

definition tmdb_direct ::
  "config \<Rightarrow> string \<Rightarrow> string option \<Rightarrow> metadata option \<Rightarrow> movie_result outcome" where
  "tmdb_direct cfg fp tmdb_id_extracted_from_filename metadata_xml =
     (case metadata_xml of
        None \<Rightarrow>
          Return (result fp None None None None (extract_basename cfg fp) True
                    METADATA_ERROR_TMDB_DIRECT)
      | Some md \<Rightarrow>
          (case get_identifiers md of
             (plex_imdb_id, plex_tmdb_id_from_meta) \<Rightarrow>
               (case video_attrs md of
                  None \<Rightarrow> Raise AttributeError
                | Some (t, y) \<Rightarrow>
                    (let final_tmdb_id_for_object =
                           (if valid_truthy tmdb_id_extracted_from_filename
                            then tmdb_id_extracted_from_filename
                            else plex_tmdb_id_from_meta)
                     in if \<not> valid_id plex_imdb_id \<and> \<not> valid_id final_tmdb_id_for_object
                        then Return (result fp plex_imdb_id final_tmdb_id_for_object
                                       (Some (attr_or t ''Desconocido''))
                                       (Some (attr_or y ''Desconocido''))
                                       (extract_basename cfg fp) True
                                       NO_ID_FOR_TMDB_DIRECT_RENAME)
                        else Return (result fp plex_imdb_id final_tmdb_id_for_object
                                       (Some (attr_or t ''Desconocido''))
                                       (Some (attr_or y ''Desconocido''))
                                       (extract_basename cfg fp) False
                                       TMDB_DIRECT_RENAME)))))"

definition process_movie :: "config \<Rightarrow> video \<Rightarrow> metadata option \<Rightarrow> movie_result outcome" where
  "process_movie cfg v metadata_xml =
     (let fp = attr_or (part_file v) ''N/A'';
          original_filename_base = os_path_basename fp;
          tmdb_id_explicit_match = re_search True tmdb_explicit_re original_filename_base;
          tmdb_presence_match =
            (if tmdb_id_explicit_match = None
             then re_search True tmdb_presence_re original_filename_base else None)
      in if tmdb_id_explicit_match \<noteq> None \<or> tmdb_presence_match \<noteq> None then
           tmdb_direct cfg fp
             (case tmdb_id_explicit_match of None \<Rightarrow> None | Some m \<Rightarrow> m_group m)
             metadata_xml
         else
           (let base = extract_basename cfg fp;
                filename_lower = lower original_filename_base
            in if re_search False imdb_tag_re filename_lower \<noteq> None
                  \<or> re_search False tmdb_tag_re filename_lower \<noteq> None
               then Return (result fp None None None None base True ALREADY_FORMATTED_ID_TAG)
               else
                 (case metadata_xml of
                    None \<Rightarrow> Return (result fp None None None None base True METADATA_ERROR)
                  | Some md \<Rightarrow>
                      (case get_identifiers md of
                         (imdb, tmdb) \<Rightarrow>
                           if \<not> valid_id imdb \<and> \<not> valid_id tmdb
                           then Return (result fp imdb tmdb None None base True NO_ID_FOUND)
                           else
                             (case video_attrs md of
                                None \<Rightarrow> Raise AttributeError
                              | Some (t, y) \<Rightarrow>
                                  Return (result fp imdb tmdb
                                            (Some (attr_or t ''Desconocido''))
                                            (Some (attr_or y ''Desconocido'')) base False
                                            (Similarity
                                               (calculate_similarity (lower base)
                                                  (lower (attr_or t ''Desconocido''))))))))))"

text \<open>
  The body of the loop of \<open>list_movie_files\<close> for one item, after \<open>process_movie\<close>.
  \<open>parse_metadata_year\<close> is \<open>int(year) if year and year.isdigit() else None\<close>; \<open>int\<close>
  raises \<open>ValueError\<close> on a digit that is not decimal (a superscript digit).
\<close>

definition parse_metadata_year :: "string \<Rightarrow> int option outcome" where
  "parse_metadata_year y =
     (if y \<noteq> [] \<and> list_all isdigit_char y
      then (if list_all isdecimal y then Return (Some (int_of_digits y)) else Raise ValueError)
      else Return None)"

text \<open>
  \<open>year_match = False\<close>, then \<open>if filename_year_val and metadata_year_val:\<close>
  \<open>year_match = abs(filename_year_val - metadata_year_val) <= YEAR_DIFF_AUTO\<close>.  The test
  is Python's truth value: \<open>None\<close> and \<open>0\<close> are false.
\<close>

definition year_match :: "config \<Rightarrow> int option \<Rightarrow> int option \<Rightarrow> bool" where
  "year_match cfg filename_year_val metadata_year_val =
     (case filename_year_val of
        None \<Rightarrow> False
      | Some f \<Rightarrow>
          (case metadata_year_val of
             None \<Rightarrow> False
           | Some m \<Rightarrow> if f \<noteq> 0 \<and> m \<noteq> 0 then \<bar>f - m\<bar> \<le> YEAR_DIFF_AUTO cfg else False))"

definition id_for_filename_tag :: "string option \<Rightarrow> string option \<Rightarrow> string" where
  "id_for_filename_tag imdb tmdb =
     (if valid_id imdb then ''{imdb-'' @ attr_or imdb [] @ ''}''
      else if valid_id tmdb then ''{tmdb-'' @ attr_or tmdb [] @ ''}''
      else [])"

text \<open>
  The three branches that end the loop body: \<open>rename_file\<close> at once, the question to
  the user, or the message that the similarity does not reach the threshold.
\<close>

datatype decision = AUTO_RENAME | ASK_CONFIRM | SKIP_INSUFFICIENT_SIMILARITY | NO_ACTION

definition auto_rename_triggered ::
  "config \<Rightarrow> bool \<Rightarrow> real \<Rightarrow> bool \<Rightarrow> string \<Rightarrow> string \<Rightarrow> bool" where
  "auto_rename_triggered cfg is_tmdb_direct_rename similarity_value ym t base =
     (if is_tmdb_direct_rename then True
      else if real_of_int (SIMILARITY_AUTO cfg) \<le> similarity_value \<and> ym then
        (if 2 \<le> length (split t) then True
         else if length (split t) = 1 \<and> length (split base) = 1 then True
         else False)
      else False)"

definition decide :: "config \<Rightarrow> bool \<Rightarrow> real \<Rightarrow> bool \<Rightarrow> string \<Rightarrow> string \<Rightarrow> decision" where
  "decide cfg is_tmdb_direct_rename similarity_value ym t base =
     (if auto_rename_triggered cfg is_tmdb_direct_rename similarity_value ym t base
      then AUTO_RENAME
      else if real_of_int (SIMILARITY_ASK cfg) < similarity_value \<and> \<not> is_tmdb_direct_rename
      then ASK_CONFIRM
      else if \<not> is_tmdb_direct_rename then SKIP_INSUFFICIENT_SIMILARITY
      else NO_ACTION)"

text \<open>
  \<open>0 if is_tmdb_direct_rename else float(status_or_similarity)\<close>; \<open>float\<close> of one of the
  status strings raises \<open>ValueError\<close>.
\<close>

definition similarity_value_of :: "status \<Rightarrow> real outcome" where
  "similarity_value_of st =
     (case st of TMDB_DIRECT_RENAME \<Rightarrow> Return 0 | Similarity x \<Rightarrow> Return x
      | _ \<Rightarrow> Raise ValueError)"

definition skip_message :: "movie_result \<Rightarrow> message list" where
  "skip_message r =
     (case status_or_similarity r of
        ALREADY_FORMATTED_ID_TAG \<Rightarrow> [Skip_already_tagged (os_path_basename (file_path r))]
      | METADATA_ERROR \<Rightarrow> [Metadata_error (os_path_basename (file_path r))]
      | METADATA_ERROR_TMDB_DIRECT \<Rightarrow> [Metadata_error (os_path_basename (file_path r))]
      | NO_ID_FOUND \<Rightarrow> [Skip_no_id (os_path_basename (file_path r))]
      | NO_ID_FOR_TMDB_DIRECT_RENAME \<Rightarrow> [Skip_no_final_id (os_path_basename (file_path r))]
      | _ \<Rightarrow> [])"

definition forget :: "'a outcome \<times> world \<Rightarrow> unit outcome \<times> world" where
  "forget rw = (case rw of (Return _, w) \<Rightarrow> (Return (), w) | (Raise e, w) \<Rightarrow> (Raise e, w))"

text \<open>
  The statements after the test of \<open>skip_processing\<close>.  A result that is not skipped
  carries a title and a year (lemma \<open>process_movie_title_year\<close>); the model raises
  where it does not.
\<close>

definition propose :: "config \<Rightarrow> world \<Rightarrow> movie_result \<Rightarrow> unit outcome \<times> world" where
  "propose cfg w r =
     (case (title r, year r) of
        (Some t, Some y) \<Rightarrow>
          (case similarity_value_of (status_or_similarity r) of
             Raise e \<Rightarrow> (Raise e, w)
           | Return similarity_value \<Rightarrow>
               (case parse_metadata_year y of
                  Raise e \<Rightarrow> (Raise e, w)
                | Return my \<Rightarrow>
                    (let is_tmdb_direct_rename = (status_or_similarity r = TMDB_DIRECT_RENAME);
                         ym = year_match cfg
                                (extract_year_from_filename (os_path_basename (file_path r))) my;
                         tag = id_for_filename_tag (imdb_id r) (tmdb_id r)
                     in if tag = [] then (Return (), print w No_valid_tag)
                        else
                          (let new_name_sanitized =
                                 sanitize_filename (strip (t @ '' ('' @ y @ '') '' @ tag));
                               w1 = print w (Proposal new_name_sanitized)
                           in case decide cfg is_tmdb_direct_rename similarity_value ym t
                                     (base_name_from_file r) of
                                AUTO_RENAME \<Rightarrow>
                                  forget (rename_file
                                            (print w1 (if is_tmdb_direct_rename then Auto_by_tag
                                                       else Auto_by_similarity))
                                            (file_path r) new_name_sanitized)
                              | ASK_CONFIRM \<Rightarrow>
                                  (case ask w1 Confirm_prompt of
                                     (Raise e, w2) \<Rightarrow> (Raise e, w2)
                                   | (Return confirm, w2) \<Rightarrow>
                                       if confirm = ''s''
                                       then forget (rename_file w2 (file_path r)
                                                      new_name_sanitized)
                                       else (Return (), print w2 Not_renamed_by_user))
                              | SKIP_INSUFFICIENT_SIMILARITY \<Rightarrow>
                                  (Return (), print w1 Similarity_too_low)
                              | NO_ACTION \<Rightarrow> (Return (), w1)))))
      | _ \<Rightarrow> (Raise AttributeError, w))"

text \<open>
  One iteration: the \<open>try\<close> with \<open>process_movie\<close>, the skips and the proposal, and the
  handler \<open>except Exception\<close> that prints the error and goes on with the next item.
\<close>

definition list_movie_files_item :: "config \<Rightarrow> world \<Rightarrow> video \<Rightarrow> metadata option \<Rightarrow> world" where
  "list_movie_files_item cfg w v metadata_xml =
     (case (case process_movie cfg v metadata_xml of
              Raise e \<Rightarrow> (Raise e, w)
            | Return r \<Rightarrow>
                if skip_processing r then (Return (), w\<lparr>stdout := stdout w @ skip_message r\<rparr>)
                else propose cfg w r) of
        (Return _, w') \<Rightarrow> w'
      | (Raise e, w') \<Rightarrow> print w' Unexpected_error)"

definition list_movie_files :: "config \<Rightarrow> world \<Rightarrow> (video \<times> metadata option) list \<Rightarrow> world" where
  "list_movie_files cfg w movie_videos =
     foldl (\<lambda>w (v, metadata_xml). list_movie_files_item cfg w v metadata_xml) w movie_videos"

section \<open>Auxiliary notions for the proofs\<close>

text \<open>
  The files of a case-insensitive file system that a case-only rename of \<open>path\<close> through
  \<open>tmp\<close> leaves alone, the states between the calls of that rename, and the relation
  between two states whose second log continues the first.
\<close>

definition others :: "world \<Rightarrow> string \<Rightarrow> string \<Rightarrow> (string \<times> string) list" where
  "others w path tmp =
     filter (\<lambda>(n, c). lower n \<noteq> lower path \<and> lower n \<noteq> lower tmp) (files w)"

definition after_remove :: "world \<Rightarrow> string \<Rightarrow> world" where
  "after_remove w tmp = w\<lparr>files := filter (\<lambda>(n, c). lower n \<noteq> lower tmp) (files w)\<rparr>"

definition moved_to :: "world \<Rightarrow> string \<Rightarrow> string \<Rightarrow> string \<Rightarrow> string \<Rightarrow> world" where
  "moved_to w path tmp dst c0 = w\<lparr>files := (dst, c0) # others w path tmp\<rparr>"

definition log_extends :: "world \<Rightarrow> world \<Rightarrow> bool" where
  "log_extends w w' = (\<exists>es. log_file w' = log_file w @ es)"

text \<open>
  The texts that the year pattern can capture; the identifier that the pattern for an
  explicit identifier finds in a file name; strings in which every whitespace character
  is one space followed by a character that is not whitespace.
\<close>

definition is_year_text :: "string \<Rightarrow> bool" where
  "is_year_text ds =
     (\<exists>c3 c4. isdecimal c3 \<and> isdecimal c4
        \<and> (ds = [CHR ''1'', CHR ''9'', c3, c4] \<or> ds = [CHR ''2'', CHR ''0'', c3, c4]
            \<or> ds = [CHR ''2'', CHR ''1'', c3, c4])
      \<or> ds = ''2200'')"



definition skip_processing_of :: "movie_result outcome \<Rightarrow> (bool \<times> status) option" where
  "skip_processing_of res =
     (case res of Return r \<Rightarrow> Some (skip_processing r, status_or_similarity r)
      | Raise e \<Rightarrow> None)"

section \<open>Example inputs\<close>

definition scenario_A_config :: config where
  "scenario_A_config = default_config\<lparr>WORDS_TO_REMOVE := [''1080p'', ''bluray'', ''x264'']\<rparr>"

definition scenario_A_filename :: string where
  "scenario_A_filename = ''Movie.Name.2019.1080p.BluRay.x264-GROUP.mkv''"

definition example_world :: world where
  "example_world =
     \<lparr>files = [(''/m/the matrix.mkv'', ''A''), (''/m/other.mkv'', ''B'')],
      case_insensitive = True, refused = (\<lambda>c. False), log_file = [],
      now = ''2024-01-01 00:00:00'', stdin = [''x'', '' N ''], stdout = []\<rparr>"


definition wide_config :: config where
  "wide_config = default_config\<lparr>YEAR_DIFF_AUTO := 2000\<rparr>"

definition tagged_video :: video where
  "tagged_video = \<lparr>part_file = Some ''/movies/The Matrix (1999) {tmdb-603}.mkv''\<rparr>"

definition matrix_metadata :: metadata where
  "matrix_metadata =
     \<lparr>guids = [''imdb://tt0133093'', ''tmdb://603''],
      video_attrs = Some (Some ''The Matrix'', Some ''1999'')\<rparr>"

definition tagged_world :: world where
  "tagged_world =
     \<lparr>files = [(''/movies/The Matrix (1999) {tmdb-603}.mkv'', ''A'')],
      case_insensitive = False, refused = (\<lambda>c. False), log_file = [],
      now = ''2024-01-01 00:00:00'', stdin = [], stdout = []\<rparr>"


section \<open>Properties\<close>

subsection \<open>C5: scenario A\<close>

text \<open>
  C5, as stated, fails: with the noise words \<open>1080p\<close>, \<open>bluray\<close> and \<open>x264\<close> the
  normalizer does not return \<open>Movie Name\<close> for the file name of scenario A.  No step of
  \<open>extract_basename\<close> removes a release group after a hyphen.
\<close>

theorem C5_scenario_A_counterexample:
  "\<not> (extract_basename scenario_A_config scenario_A_filename = ''Movie Name''
      \<and> extract_year_from_filename scenario_A_filename = Some 2019)"
  unfolding scenario_A_config_def scenario_A_filename_def default_config_def
  by code_simp

text \<open>
  C5, amended: for the file name of scenario A the normalizer returns
  \<open>Movie Name -GROUP\<close>, with the three noise words of the scenario as well as with the
  program's default list, and the year extractor returns 2019.
\<close>

theorem C5_scenario_A:
  "extract_basename scenario_A_config scenario_A_filename = ''Movie Name -GROUP''
   \<and> extract_basename default_config scenario_A_filename = ''Movie Name -GROUP''
   \<and> extract_year_from_filename scenario_A_filename = Some 2019"
  unfolding scenario_A_config_def scenario_A_filename_def default_config_def
    default_words_to_remove_def
  by code_simp

theorem C5_scenario_A_witness:
  "extract_basename scenario_A_config scenario_A_filename = ''Movie Name -GROUP''
   \<and> extract_year_from_filename scenario_A_filename = Some 2019"
  using C5_scenario_A by simp

subsection \<open>C6: the similarity scorer\<close>

lemma total_append [simp]: "total (xs @ ys) = total xs + total ys"
  by (simp add: total_def)

lemma total_Cons [simp]: "total ((i, j, k) # xs) = k + total xs"
  by (simp add: total_def)

lemma total_Nil [simp]: "total [] = 0"
  by (simp add: total_def)

lemma matching_blocks_loop_total:
  "2 * total (matching_blocks_loop a b queue blocks)
     \<le> 2 * total blocks + sum_list (map region_size queue)"
proof (induction a b queue blocks rule: matching_blocks_loop.induct)
  case (1 a b matching_blocks)
  then show ?case by simp
next
  case (2 a b alo ahi blo bhi queue matching_blocks)
  obtain i j k where f: "find_longest_match a b alo ahi blo bhi = (i, j, k)"
    by (cases "find_longest_match a b alo ahi blo bhi") auto
  show ?case
  proof (cases "k = 0")
    case True
    with f 2(2)[OF f[symmetric] refl] show ?thesis by simp
  next
    case False
    let ?q = "(if i + k < ahi \<and> j + k < bhi then [(i + k, ahi, j + k, bhi)] else [])
                  @ (if alo < i \<and> blo < j then [(alo, i, blo, j)] else []) @ queue"
    have ih: "2 * total (matching_blocks_loop a b ?q (matching_blocks @ [(i, j, k)]))
                \<le> 2 * total (matching_blocks @ [(i, j, k)]) + sum_list (map region_size ?q)"
      using 2(1)[OF f[symmetric] refl False] .
    have b: "alo \<le> i \<and> blo \<le> j \<and> i + k \<le> ahi \<and> j + k \<le> bhi"
      using find_longest_match_bounds[OF f False] .
    have "2 * k + sum_list (map region_size ?q)
            \<le> region_size (alo, ahi, blo, bhi) + sum_list (map region_size queue)"
      using b by (auto simp: region_size_def)
    with ih f False show ?thesis by simp
  qed
qed

lemma total_insort: "total (insort x xs) = total [x] + total xs"
  by (induction xs) (auto simp: total_def)

lemma total_sort: "total (sort xs) = total xs"
  by (induction xs) (auto simp: total_insort)

lemma total_collapse: "total (collapse (i1, j1, k1) bs) = k1 + total bs"
  by (induction bs arbitrary: i1 j1 k1) auto

lemma matches_bound:
  "2 * sum_list (map (\<lambda>triple. snd (snd triple)) (get_matching_blocks a b))
     \<le> length a + length b"
proof -
  have "2 * total (get_matching_blocks a b)
          = 2 * total (matching_blocks_loop a b [(0, length a, 0, length b)] [])"
    by (simp add: get_matching_blocks_def total_collapse total_sort)
  also have "\<dots> \<le> length a + length b"
    using matching_blocks_loop_total[of a b "[(0, length a, 0, length b)]" "[]"]
    by (simp add: region_size_def)
  finally show ?thesis by (simp add: total_def)
qed

text \<open>
  C6, amended: for every pair of strings the score of \<open>calculate_similarity\<close> lies
  between 0 and 100.  (Symmetry is not part of the amended claim.)
\<close>

theorem C6_similarity_range:
  "0 \<le> calculate_similarity a b \<and> calculate_similarity a b \<le> 100"
proof -
  let ?m = "sum_list (map (\<lambda>triple. snd (snd triple)) (get_matching_blocks a b))"
  let ?n = "length a + length b"
  have "2 * real ?m \<le> real ?n"
    using matches_bound[of a b] by linarith
  then have "calculate_ratio ?m ?n \<le> 1" "0 \<le> calculate_ratio ?m ?n"
    by (auto simp: calculate_ratio_def divide_le_eq)
  then show ?thesis
    by (simp add: calculate_similarity_def ratio_def)
qed

theorem C6_similarity_range_witness:
  "0 \<le> calculate_similarity ''tide'' ''diet'' \<and> calculate_similarity ''tide'' ''diet'' \<le> 100"
  using C6_similarity_range [of "''tide''" "''diet''"] by simp

text \<open>
  C6, as stated, fails: the scorer is not symmetric.  \<open>tide\<close> against \<open>diet\<close> scores
  25 (one matching block, \<open>t\<close>), \<open>diet\<close> against \<open>tide\<close> scores 50 (two blocks,
  \<open>d\<close> and \<open>e\<close>).
\<close>

theorem C6_symmetry_counterexample:
  "calculate_similarity ''tide'' ''diet'' = 25 \<and> calculate_similarity ''diet'' ''tide'' = 50
   \<and> calculate_similarity ''tide'' ''diet'' \<noteq> calculate_similarity ''diet'' ''tide''"
  by code_simp

subsection \<open>The rename executor and the log\<close>

lemma print_keeps [simp]:
  "log_file (print w m) = log_file w" "now (print w m) = now w" "files (print w m) = files w"
  "refused (print w m) = refused w" "case_insensitive (print w m) = case_insensitive w"
  "stdin (print w m) = stdin w" "stdout (print w m) = stdout w @ [m]"
  by (simp_all add: print_def)

lemma exists_print [simp]: "os_path_exists (print w m) p = os_path_exists w p"
  by (simp add: os_path_exists_def same_file_def)

lemma log_entry_print [simp]: "log_entry (print w m) a b = log_entry w a b"
  by (simp add: log_entry_def)


lemma find_filter: "find P (filter Q xs) = find (\<lambda>x. Q x \<and> P x) xs"
  by (induction xs) auto


text \<open>The files of a case-insensitive file system after the calls of the case-only branch.\<close>

lemma ci_same [simp]: "case_insensitive w \<Longrightarrow> same_file w a b = (lower a = lower b)"
  by (simp add: same_file_def)







lemma filter_others:
  "lower np = lower path \<Longrightarrow>
   filter (\<lambda>(n, c). lower n \<noteq> lower tmp \<and> lower n \<noteq> lower np)
     (filter (\<lambda>(n, c). lower n \<noteq> lower path \<and> lower n \<noteq> lower tmp)
       (filter (\<lambda>(n, c). lower n \<noteq> lower tmp) fs))
   = filter (\<lambda>(n, c). lower n \<noteq> lower path \<and> lower n \<noteq> lower tmp) fs"
  by (induction fs) auto





lemma ci_keeps [simp]:
  "case_insensitive (after_remove w tmp) = case_insensitive w"
  "case_insensitive (moved_to w path tmp dst c0) = case_insensitive w"
  "refused (after_remove w tmp) = refused w"
  "refused (moved_to w path tmp dst c0) = refused w"
  "stdout (after_remove w tmp) = stdout w"
  "stdout (moved_to w path tmp dst c0) = stdout w"
  by (simp_all add: after_remove_def moved_to_def)







lemma prompt_loop_decline:
  "\<forall>l \<in> set bad. lower (strip l) \<noteq> ''s'' \<and> lower (strip l) \<noteq> ''n'' \<Longrightarrow>
   lower (strip ans) = ''n'' \<Longrightarrow>
   \<exists>out'. prompt_loop p (bad @ ans # rest) out = (Return ''n'', rest, out')"
  by (induction bad arbitrary: out) auto

lemma ask_decline:
  assumes "stdin w = bad @ ans # rest"
    and "\<forall>l \<in> set bad. lower (strip l) \<noteq> ''s'' \<and> lower (strip l) \<noteq> ''n''"
    and "lower (strip ans) = ''n''"
  shows "\<exists>out'. ask w p = (Return ''n'', w\<lparr>stdin := rest, stdout := out'\<rparr>)"
  using prompt_loop_decline[OF assms(2,3), of p rest "stdout w"] assms(1)
  by (auto simp: ask_def)

lemma rename_file_declined:
  assumes "path \<noteq> new_path_of path name"
    and "os_path_exists w (new_path_of path name)"
    and "lower path \<noteq> lower (new_path_of path name)"
    and "stdin w = bad @ ans # rest"
    and "\<forall>l \<in> set bad. lower (strip l) \<noteq> ''s'' \<and> lower (strip l) \<noteq> ''n''"
    and "lower (strip ans) = ''n''"
  shows "fst (rename_file w path name) = Return False
         \<and> files (snd (rename_file w path name)) = files w
         \<and> log_file (snd (rename_file w path name)) = log_file w"
proof -
  obtain out' where a: "ask w (Overwrite_prompt (new_path_of path name))
      = (Return ''n'', w\<lparr>stdin := rest, stdout := out'\<rparr>)"
    using ask_decline[OF assms(4,5,6)] by blast
  show ?thesis
    using assms(1,2,3) a by (simp add: rename_file_def Let_def print_def)
qed

lemma log_rename_log:
  "log_rename w old new = (r, w') \<Longrightarrow>
   files w' = files w \<and> now w' = now w \<and> refused w' = refused w \<and> case_insensitive w' = case_insensitive w \<and>
   (case r of Return _ \<Rightarrow> log_file w' = log_file w @ [log_entry w old new]
            | Raise _ \<Rightarrow> log_file w' = log_file w)"
  by (auto simp: log_rename_def split: if_splits)

lemma os_rename_keeps:
  "os_rename w a b = (r, w') \<Longrightarrow> log_file w' = log_file w \<and> now w' = now w"
  by (auto simp: os_rename_def move_file_def split: if_splits option.splits)

lemma os_replace_keeps:
  "os_replace w a b = (r, w') \<Longrightarrow> log_file w' = log_file w \<and> now w' = now w"
  by (auto simp: os_replace_def move_file_def split: if_splits option.splits)

lemma os_remove_keeps:
  "os_remove w a = (r, w') \<Longrightarrow> log_file w' = log_file w \<and> now w' = now w"
  by (auto simp: os_remove_def split: if_splits)

lemma ask_keeps:
  "ask w p = (r, w') \<Longrightarrow> log_file w' = log_file w \<and> now w' = now w \<and> files w' = files w"
  by (auto simp: ask_def split: prod.splits)

lemma try_case_rename_log:
  "try_case_rename w fp tmp np = (r, w') \<Longrightarrow>
   (case r of Return _ \<Rightarrow> log_file w' = log_file w @ [log_entry w fp np]
            | Raise _ \<Rightarrow> log_file w' = log_file w)"
  unfolding try_case_rename_def
  by (auto split: prod.splits outcome.splits if_splits
      dest!: os_rename_keeps os_remove_keeps log_rename_log simp: log_entry_def)

lemma try_replace_log:
  "try_replace w fp np = (r, w') \<Longrightarrow>
   (if r = Return True then log_file w' = log_file w @ [log_entry w fp np]
    else log_file w' = log_file w)"
  unfolding try_replace_def
  by (auto split: prod.splits outcome.splits if_splits
      dest!: os_replace_keeps log_rename_log simp: log_entry_def)

lemma rename_file_log:
  "(case rename_file w path name of
      (r, w') \<Rightarrow>
        if r = Return True
        then log_file w' = log_file w @ [log_entry w path (new_path_of path name)]
        else log_file w' = log_file w)"
  unfolding rename_file_def Let_def
  by (auto split: prod.splits outcome.splits if_splits
      dest!: try_case_rename_log try_replace_log os_rename_keeps ask_keeps simp: log_entry_def)


lemma log_extends_same: "log_file w' = log_file w \<Longrightarrow> log_extends w w'"
  by (simp add: log_extends_def)

lemma log_extends_trans: "log_extends w w1 \<Longrightarrow> log_extends w1 w2 \<Longrightarrow> log_extends w w2"
  by (auto simp: log_extends_def)

lemma log_extends_rename: "log_extends w (snd (rename_file w p n))"
  using rename_file_log[of w p n]
  by (cases "rename_file w p n") (auto simp: log_extends_def split: if_splits)

lemma log_extends_forget_rename:
  "log_file w1 = log_file w \<Longrightarrow> log_extends w (snd (forget (rename_file w1 p n)))"
  using log_extends_rename[of w1 p n]
  by (cases "rename_file w1 p n")
    (auto simp: log_extends_def forget_def split: outcome.splits)

lemma log_extends_ask:
  "ask w p = (r, w') \<Longrightarrow> log_file w' = log_file w"
  by (auto dest: ask_keeps)

lemma propose_log: "log_extends w (snd (propose cfg w r))"
  unfolding propose_def Let_def
  by (auto split: option.splits outcome.splits decision.splits prod.splits
      simp: log_extends_forget_rename log_extends_same dest!: log_extends_ask)

lemma list_movie_files_item_log: "log_extends w (list_movie_files_item cfg w v md)"
proof -
  have "log_extends w (snd (propose cfg w r))" for r by (rule propose_log)
  then show ?thesis
    unfolding list_movie_files_item_def
    by (auto split: outcome.splits prod.splits if_splits simp: log_extends_def)
      (metis snd_conv)+
qed

lemma list_movie_files_log: "log_extends w (list_movie_files cfg w items)"
proof -
  have "log_extends w0 w \<Longrightarrow>
        log_extends w0 (foldl (\<lambda>w (v, md). list_movie_files_item cfg w v md) w items)"
    for w0 w
  proof (induction items arbitrary: w)
    case Nil
    then show ?case by simp
  next
    case (Cons x xs)
    obtain v md where x: "x = (v, md)" by (cases x)
    have "log_extends w0 (list_movie_files_item cfg w v md)"
      using log_extends_trans[OF Cons.prems list_movie_files_item_log] .
    from Cons.IH[OF this] show ?case by (simp add: x)
  qed
  from this[of w w] show ?thesis
    by (simp add: list_movie_files_def log_extends_def)
qed

subsection \<open>C7: the audit log\<close>

text \<open>
  C7, amended: a call of \<open>rename_file\<close> that returns \<open>True\<close> has appended exactly one
  entry to the log, made of the timestamp, the old path and the new path; a call that
  returns \<open>False\<close> or raises (the name is already the desired one, the user declined, the
  rename failed) leaves the log as it was.  Over a whole run of \<open>list_movie_files\<close> the
  log only grows at its end.
\<close>

theorem C7_audit_log:
  "(fst (rename_file w path name) = Return True \<longrightarrow>
      log_file (snd (rename_file w path name))
        = log_file w @ [''['' @ now w @ ''] Renombrado: '' @ path @ '' -> ''
                          @ new_path_of path name @ [CHR 0x0A]])
   \<and> (fst (rename_file w path name) \<noteq> Return True \<longrightarrow>
      log_file (snd (rename_file w path name)) = log_file w)
   \<and> (\<exists>es. log_file (list_movie_files cfg w items) = log_file w @ es)"
  using rename_file_log[of w path name] list_movie_files_log[of w cfg items]
  by (cases "rename_file w path name") (auto simp: log_entry_def log_extends_def)

theorem C7_audit_log_witness:
  "fst (rename_file example_world ''/m/the matrix.mkv'' ''The Matrix'') = Return True
   \<and> log_file (snd (rename_file example_world ''/m/the matrix.mkv'' ''The Matrix''))
       = [''[2024-01-01 00:00:00] Renombrado: /m/the matrix.mkv -> /m/The Matrix.mkv''
            @ [CHR 0x0A]]"
proof -
  have r: "fst (rename_file example_world ''/m/the matrix.mkv'' ''The Matrix'') = Return True"
    by code_simp
  have n: "new_path_of ''/m/the matrix.mkv'' ''The Matrix'' = ''/m/The Matrix.mkv''"
    by code_simp
  show ?thesis
    using r n C7_audit_log[of example_world "''/m/the matrix.mkv''" "''The Matrix''"]
    by (simp add: example_world_def)
qed

text \<open>
  C7, as stated, fails: a rename attempt that fails (here the source file does not
  exist, \<open>os.replace\<close> raises) prints an error and writes nothing to the log.
\<close>

theorem C7_failed_rename_counterexample:
  "fst (rename_file example_world ''/m/missing.mkv'' ''new'') = Return False
   \<and> stdout (snd (rename_file example_world ''/m/missing.mkv'' ''new'')) = [Rename_error]
   \<and> log_file example_world = []
   \<and> log_file (snd (rename_file example_world ''/m/missing.mkv'' ''new'')) = []"
  by code_simp

subsection \<open>C10: a declined overwrite\<close>

text \<open>
  C10: when the destination exists, is not the source up to letter case, and the first
  answer of the user that is \<open>s\<close> or \<open>n\<close> is \<open>n\<close>, \<open>rename_file\<close> returns \<open>False\<close> and
  neither the files nor the log have changed.
\<close>

theorem C10_declined_overwrite:
  assumes "path \<noteq> new_path_of path name"
    and "os_path_exists w (new_path_of path name)"
    and "lower path \<noteq> lower (new_path_of path name)"
    and "stdin w = bad @ ans # rest"
    and "\<forall>l \<in> set bad. lower (strip l) \<noteq> ''s'' \<and> lower (strip l) \<noteq> ''n''"
    and "lower (strip ans) = ''n''"
  shows "fst (rename_file w path name) = Return False
         \<and> files (snd (rename_file w path name)) = files w
         \<and> log_file (snd (rename_file w path name)) = log_file w"
  using rename_file_declined[OF assms] .

theorem C10_declined_overwrite_witness:
  "fst (rename_file example_world ''/m/the matrix.mkv'' ''other'') = Return False
   \<and> files (snd (rename_file example_world ''/m/the matrix.mkv'' ''other''))
       = [(''/m/the matrix.mkv'', ''A''), (''/m/other.mkv'', ''B'')]
   \<and> log_file (snd (rename_file example_world ''/m/the matrix.mkv'' ''other'')) = []"
proof -
  have 1: "''/m/the matrix.mkv'' \<noteq> new_path_of ''/m/the matrix.mkv'' ''other''"
    by code_simp
  have 2: "os_path_exists example_world (new_path_of ''/m/the matrix.mkv'' ''other'')"
    by code_simp
  have 3: "lower ''/m/the matrix.mkv'' \<noteq> lower (new_path_of ''/m/the matrix.mkv'' ''other'')"
    by code_simp
  have 4: "stdin example_world = [''x''] @ '' N '' # []"
    by (simp add: example_world_def)
  have 5: "\<forall>l \<in> set [''x'']. lower (strip l) \<noteq> ''s'' \<and> lower (strip l) \<noteq> ''n''"
    by code_simp
  have 6: "lower (strip '' N '') = ''n''"
    by code_simp
  show ?thesis
    using C10_declined_overwrite[OF 1 2 3 4 5 6] by (simp add: example_world_def)
qed

subsection \<open>C8: a rename that changes letter case only\<close>




subsection \<open>C2: the decision on the similarity\<close>

text \<open>
  C2: for an item that is not a direct rename (\<open>is_tmdb_direct_rename\<close> is false), the
  loop body renames at once exactly when the score reaches \<open>SIMILARITY_AUTO\<close>, the years
  match and the title has at least two words or the title and the normalized file name
  have one word each; otherwise it asks the user exactly when the score is above
  \<open>SIMILARITY_ASK\<close>; otherwise it reports that the similarity is insufficient.
\<close>

theorem C2_decision:
  "(decide cfg False score ym t base = AUTO_RENAME \<longleftrightarrow>
      real_of_int (SIMILARITY_AUTO cfg) \<le> score \<and> ym
      \<and> (2 \<le> length (split t) \<or> length (split t) = 1 \<and> length (split base) = 1))
   \<and> (decide cfg False score ym t base = ASK_CONFIRM \<longleftrightarrow>
      decide cfg False score ym t base \<noteq> AUTO_RENAME
      \<and> real_of_int (SIMILARITY_ASK cfg) < score)
   \<and> (decide cfg False score ym t base = SKIP_INSUFFICIENT_SIMILARITY \<longleftrightarrow>
      decide cfg False score ym t base \<noteq> AUTO_RENAME
      \<and> \<not> real_of_int (SIMILARITY_ASK cfg) < score)"
  by (auto simp: decide_def auto_rename_triggered_def)

theorem C2_decision_witness:
  "decide default_config False 100 True ''Movie Name'' ''Movie Name'' = AUTO_RENAME
   \<and> decide default_config False 90 True ''Movie Name'' ''Movie Name'' = ASK_CONFIRM
   \<and> decide default_config False 80 True ''Movie Name'' ''Movie Name''
       = SKIP_INSUFFICIENT_SIMILARITY
   \<and> decide default_config False 100 True ''Alien'' ''Alien 1080p x'' = ASK_CONFIRM"
proof -
  have l: "length (split ''Movie Name'') = 2" "length (split ''Alien'') = 1"
    "length (split ''Alien 1080p x'') = 3"
    by code_simp+
  have c: "SIMILARITY_AUTO default_config = 100" "SIMILARITY_ASK default_config = 85"
    by (simp_all add: default_config_def)
  show ?thesis
    using C2_decision[of default_config 100 True "''Movie Name''" "''Movie Name''"]
      C2_decision[of default_config 90 True "''Movie Name''" "''Movie Name''"]
      C2_decision[of default_config 80 True "''Movie Name''" "''Movie Name''"]
      C2_decision[of default_config 100 True "''Alien''" "''Alien 1080p x''"]
    by (simp add: l c)
qed

subsection \<open>C3: the agreement of the years\<close>

lemma search_from_group:
  "search_from ic r p s = Some m \<Longrightarrow>
   \<exists>p0 s0 p' s'. (p', s', m_group m) \<in> set (ms ic r (p0, s0, None))"
proof (induction s arbitrary: p)
  case Nil
  then show ?case
    by (auto simp: first_match_def mk_match_def split: option.splits list.splits prod.splits)
      (metis list.set_intros(1))
next
  case (Cons c cs)
  show ?case
  proof (cases "first_match ic r False p (c # cs)")
    case None
    with Cons.prems have "search_from ic r (Some c) cs = Some m" by simp
    from Cons.IH[OF this] show ?thesis .
  next
    case (Some a)
    obtain p' s' g where a: "a = (p', s', g)" by (cases a)
    with Some Cons.prems have "m_group m = g" by (auto simp: mk_match_def)
    moreover have "(p', s', g) \<in> set (ms ic r (p, c # cs, None))"
      using Some a by (auto simp: first_match_def split: list.splits)
    ultimately show ?thesis by blast
  qed
qed

lemma ms_year_group:
  "(p', s', g') \<in> set (ms False year_group (p, s, g)) \<Longrightarrow> \<exists>ds. g' = Some ds \<and> is_year_text ds"
  unfolding year_group_def is_year_text_def
  by (auto split: list.splits if_splits)

lemma ms_WordB_state: "st' \<in> set (ms ic WordB st) \<Longrightarrow> st' = st"
  by (cases st) (auto split: if_splits)

lemma ms_year_token:
  assumes "(p', s', g') \<in> set (ms False year_token_re (p, s, g))"
  shows "\<exists>ds. g' = Some ds \<and> is_year_text ds"
proof -
  from assms obtain st1 st2 where
    1: "st1 \<in> set (ms False WordB (p, s, g))"
    and 2: "st2 \<in> set (ms False year_group st1)"
    and 3: "(p', s', g') \<in> set (ms False WordB st2)"
    by (auto simp: year_token_re_def)
  from 3 have "st2 = (p', s', g')" using ms_WordB_state by metis
  with 2 show ?thesis
    using ms_year_group[of p' s' g' "fst st1" "fst (snd st1)" "snd (snd st1)"] by simp
qed

lemma isdecimal_ord: "isdecimal c \<Longrightarrow> 48 \<le> ord c \<and> ord c \<le> 57"
  by (simp add: isdecimal_def Let_def)

lemma year_text_range: "is_year_text ds \<Longrightarrow> 1900 \<le> int_of_digits ds \<and> int_of_digits ds \<le> 2200"
  unfolding is_year_text_def
  by (auto simp: int_of_digits_def ord_def dest!: isdecimal_ord)

lemma extract_year_range:
  "extract_year_from_filename s = Some y \<Longrightarrow> 1900 \<le> y \<and> y \<le> 2200"
proof -
  assume a: "extract_year_from_filename s = Some y"
  then obtain m ds where m: "re_search False year_token_re s = Some m" "m_group m = Some ds"
    "y = int_of_digits ds"
    by (auto simp: extract_year_from_filename_def split: option.splits)
  from search_from_group[OF m(1)[unfolded re_search_def]] m(2)
  obtain p0 s0 p' s' where "(p', s', Some ds) \<in> set (ms False year_token_re (p0, s0, None))"
    by auto
  from ms_year_token[OF this] have "is_year_text ds" by simp
  from year_text_range[OF this] m(3) show ?thesis by simp
qed

text \<open>
  C3, amended: with the year of the raw file name from \<open>extract_year_from_filename\<close>,
  \<open>year_match\<close> is false when either year is absent, and also when the year of the
  metadata is 0; when both are present and the year of the metadata is not 0,
  \<open>year_match\<close> holds exactly when their absolute difference is at most
  \<open>YEAR_DIFF_AUTO\<close>.
\<close>

theorem C3_year_match:
  assumes "fy = extract_year_from_filename raw_filename"
  shows "(fy = None \<or> my = None \<or> my = Some 0 \<longrightarrow> \<not> year_match cfg fy my)
       \<and> (\<forall>f m. fy = Some f \<and> my = Some m \<and> m \<noteq> 0 \<longrightarrow>
             (year_match cfg fy my \<longleftrightarrow> \<bar>f - m\<bar> \<le> YEAR_DIFF_AUTO cfg))"
  using extract_year_range[of raw_filename] assms
  by (auto simp: year_match_def split: option.splits)

theorem C3_year_match_witness:
  "year_match default_config (extract_year_from_filename scenario_A_filename) (Some 2019)
   \<and> year_match default_config (extract_year_from_filename scenario_A_filename) (Some 2020)
   \<and> \<not> year_match default_config (extract_year_from_filename scenario_A_filename) (Some 2021)
   \<and> \<not> year_match default_config (extract_year_from_filename scenario_A_filename) None
   \<and> \<not> year_match default_config (extract_year_from_filename scenario_A_filename) (Some 0)"
proof -
  have e: "extract_year_from_filename scenario_A_filename = Some 2019"
    unfolding scenario_A_filename_def by code_simp
  have c: "YEAR_DIFF_AUTO default_config = 1" by (simp add: default_config_def)
  show ?thesis
    using C3_year_match[OF refl, where my="Some 2019" and cfg=default_config and raw_filename=scenario_A_filename]
      C3_year_match[OF refl, where my="Some 2020" and cfg=default_config and raw_filename=scenario_A_filename]
      C3_year_match[OF refl, where my="Some 2021" and cfg=default_config and raw_filename=scenario_A_filename]
      C3_year_match[OF refl, where my="None" and cfg=default_config and raw_filename=scenario_A_filename]
      C3_year_match[OF refl, where my="Some 0" and cfg=default_config and raw_filename=scenario_A_filename]
    by (simp add: e c)
qed

text \<open>
  C3, as stated, fails: the test \<open>if filename_year_val and metadata_year_val\<close> takes a
  metadata year of 0 for an absent one.  With a tolerance of 2000 years the years 1999 and
  0 are both present and differ by no more than the tolerance, and \<open>year_match\<close> is false.
\<close>

theorem C3_year_zero_counterexample:
  "extract_year_from_filename ''Movie.1999.mkv'' = Some 1999
   \<and> parse_metadata_year ''0'' = Return (Some 0)
   \<and> \<bar>1999 - 0\<bar> \<le> YEAR_DIFF_AUTO wide_config
   \<and> \<not> year_match wide_config (Some 1999) (Some 0)"
  by code_simp

subsection \<open>C1: a file name that carries an identifier tag\<close>

text \<open>
  C1 (every file name with a tag \<open>{imdb-ttNNNN}\<close> or \<open>{tmdb-NNNN}\<close> is skipped as already
  tagged, before any other rule) holds for the first form and fails for the second: the
  test for \<open>tmdb-\<close> followed by digits comes first in \<open>process_movie\<close> and returns before
  the test for the standard tags is reached.  A file named with \<open>{imdb-tt0133093}\<close> is
  skipped; a file named with \<open>{tmdb-603}\<close> takes the direct-rename path and is renamed.
\<close>

theorem C1_tmdb_tag_renamed:
  "skip_processing_of
     (process_movie scenario_A_config
        \<lparr>part_file = Some ''/movies/The Matrix (1999) {imdb-tt0133093}.mkv''\<rparr>
        (Some matrix_metadata))
     = Some (True, ALREADY_FORMATTED_ID_TAG)
   \<and> re_search False tmdb_tag_re (lower ''The Matrix (1999) {tmdb-603}.mkv'') \<noteq> None
   \<and> process_movie scenario_A_config tagged_video (Some matrix_metadata) =
       Return \<lparr>file_path = ''/movies/The Matrix (1999) {tmdb-603}.mkv'',
               imdb_id = Some ''tt0133093'', tmdb_id = Some ''603'',
               title = Some ''The Matrix'', year = Some ''1999'',
               base_name_from_file = ''The Matrix {tmdb-603}'',
               skip_processing = False, status_or_similarity = TMDB_DIRECT_RENAME\<rparr>
   \<and> files (list_movie_files_item scenario_A_config tagged_world tagged_video
                (Some matrix_metadata))
       = [(''/movies/The Matrix (1999) {imdb-tt0133093}.mkv'', ''A'')]
   \<and> stdout (list_movie_files_item scenario_A_config tagged_world tagged_video
                (Some matrix_metadata))
       = [Proposal ''The Matrix (1999) {imdb-tt0133093}'', Auto_by_tag,
          Renamed_to ''/movies/The Matrix (1999) {imdb-tt0133093}.mkv'']"
  by code_simp

theorem C1_tmdb_tag_renamed_witness:
  "files (list_movie_files_item scenario_A_config tagged_world tagged_video
            (Some matrix_metadata))
     = [(''/movies/The Matrix (1999) {imdb-tt0133093}.mkv'', ''A'')]"
  using C1_tmdb_tag_renamed by simp

subsection \<open>C9: the marker of an identifier in the file name\<close>











subsection \<open>C4: normalizing twice\<close>

declare sub_from.simps [simp del]
declare search_from.simps [simp del]

lemma search_from_Nil:
  "search_from ic r p [] =
     (case first_match ic r False p [] of Some (p', s', g) \<Rightarrow> Some (mk_match [] s' g)
      | None \<Rightarrow> None)"
  by (subst search_from.simps) (simp split: option.splits)

lemma search_from_Cons:
  "search_from ic r p (c # cs) =
     (case first_match ic r False p (c # cs) of
        Some (p', s', g) \<Rightarrow> Some (mk_match (c # cs) s' g)
      | None \<Rightarrow> search_from ic r (Some c) cs)"
  by (subst search_from.simps) (simp split: option.splits)











lemma search_from_None_D:
  "search_from ic r p s = None \<Longrightarrow> first_match ic r False p s = None"
  by (cases s) (auto simp: search_from_Nil search_from_Cons split: option.splits)




















end
